theory Spec2Isabelle
  imports Main
begin

section \<open>The JavaScript runtime pieces the hooks rely on\<close>

text \<open>
  Strings are lists of code units below 256. The regular expressions of the hooks are
  built with \<^verbatim>\<open>new RegExp(source, flags)\<close> from interpolated configuration strings, so the
  constructor is modelled as a parser from the source text: it returns a syntax tree, or
  the SyntaxError that the constructor throws, or \<open>Unsupported\<close> when the source uses a
  construct outside the modelled subset (character classes in brackets, braces,
  look-ahead, word boundaries, back-references, control escapes).
\<close>

subsection \<open>Characters\<close>

abbreviation bslash :: char where
  "bslash \<equiv> CHR 0x5C"

definition code :: "char \<Rightarrow> nat" where
  "code c = of_char c"

definition line_term :: "char \<Rightarrow> bool" where
  "line_term c = (code c = 10 \<or> code c = 13)"

definition white_space :: "char \<Rightarrow> bool" where
  "white_space c = (code c \<in> {9, 10, 11, 12, 13, 32, 160})"

definition digit_char :: "char \<Rightarrow> bool" where
  "digit_char c = (48 \<le> code c \<and> code c \<le> 57)"

definition word_char :: "char \<Rightarrow> bool" where
  "word_char c = (digit_char c \<or> (65 \<le> code c \<and> code c \<le> 90)
     \<or> (97 \<le> code c \<and> code c \<le> 122) \<or> code c = 95)"

definition canon :: "char \<Rightarrow> char" where
  \<comment> \<open>Canonicalize of the ignore-case flag: the upper-case code unit, where it is a single one.\<close>
  "canon c = (let n = code c in
     if (97 \<le> n \<and> n \<le> 122) \<or> (224 \<le> n \<and> n \<le> 254 \<and> n \<noteq> 247)
     then char_of (n - 32) else c)"

definition ch_eq :: "bool \<Rightarrow> char \<Rightarrow> char \<Rightarrow> bool" where
  "ch_eq ic a b = (if ic then canon a = canon b else a = b)"

subsection \<open>Syntax trees and matching\<close>

datatype cclass = Digit | Space | Word

datatype rexp =
    Nul
  | Eps
  | Bol
  | Eol
  | Chr char
  | Dot
  | Cls bool cclass
  | Seq rexp rexp
  | Alt rexp rexp
  | Star rexp

fun in_class :: "cclass \<Rightarrow> char \<Rightarrow> bool" where
  "in_class Digit c = digit_char c"
| "in_class Space c = white_space c"
| "in_class Word c = word_char c"

text \<open>
  Matching by derivatives. The two anchors look at the position, not at a character: \<open>bol\<close>
  says that the position is the start of the subject, \<open>eol\<close> that it is its end (there is
  no multiline flag in the hooks).
\<close>

fun nullable :: "bool \<Rightarrow> bool \<Rightarrow> rexp \<Rightarrow> bool" where
  \<comment> \<open>the tree matches the empty string at a position\<close>
  "nullable bol eol Nul = False"
| "nullable bol eol Eps = True"
| "nullable bol eol Bol = bol"
| "nullable bol eol Eol = eol"
| "nullable bol eol (Chr d) = False"
| "nullable bol eol Dot = False"
| "nullable bol eol (Cls neg k) = False"
| "nullable bol eol (Seq r s) = (nullable bol eol r \<and> nullable bol eol s)"
| "nullable bol eol (Alt r s) = (nullable bol eol r \<or> nullable bol eol s)"
| "nullable bol eol (Star r) = True"

fun deriv :: "bool \<Rightarrow> bool \<Rightarrow> char \<Rightarrow> rexp \<Rightarrow> rexp" where
  \<comment> \<open>what is left to match after the character \<open>c\<close>, read at a position that is not the end\<close>
  "deriv ic bol c Nul = Nul"
| "deriv ic bol c Eps = Nul"
| "deriv ic bol c Bol = Nul"
| "deriv ic bol c Eol = Nul"
| "deriv ic bol c (Chr d) = (if ch_eq ic c d then Eps else Nul)"
| "deriv ic bol c Dot = (if line_term c then Nul else Eps)"
| "deriv ic bol c (Cls neg k) = (if in_class k c \<noteq> neg then Eps else Nul)"
| "deriv ic bol c (Seq r s) =
     (if nullable bol False r then Alt (Seq (deriv ic bol c r) s) (deriv ic bol c s)
      else Seq (deriv ic bol c r) s)"
| "deriv ic bol c (Alt r s) = Alt (deriv ic bol c r) (deriv ic bol c s)"
| "deriv ic bol c (Star r) = Seq (deriv ic bol c r) (Star r)"

fun pmatch :: "bool \<Rightarrow> bool \<Rightarrow> rexp \<Rightarrow> string \<Rightarrow> bool" where
  \<comment> \<open>some prefix of the rest of the subject matches\<close>
  "pmatch ic bol r [] = nullable bol True r"
| "pmatch ic bol r (c # cs) = (nullable bol False r \<or> pmatch ic False (deriv ic bol c r) cs)"

fun search :: "bool \<Rightarrow> bool \<Rightarrow> rexp \<Rightarrow> string \<Rightarrow> bool" where
  \<comment> \<open>a match at some start position, as \<^verbatim>\<open>exec\<close> and \<^verbatim>\<open>test\<close> look for\<close>
  "search ic bol r [] = nullable bol True r"
| "search ic bol r (c # cs) = (pmatch ic bol r (c # cs) \<or> search ic False r cs)"

subsection \<open>The RegExp constructor\<close>

datatype rx_error = SyntaxError | Unsupported

datatype token =
    TLit char | TDot | TCls bool cclass | TBol | TEol
  | TOpen | TClose | TBar | TStar | TPlus | TQuest

definition syntax_chars :: "char list" where
  "syntax_chars = ''^$.*+?()[]{}|/'' @ [bslash]"

definition escape_tok :: "char \<Rightarrow> token option" where
  "escape_tok d =
     (if d = CHR ''s'' then Some (TCls False Space)
      else if d = CHR ''S'' then Some (TCls True Space)
      else if d = CHR ''d'' then Some (TCls False Digit)
      else if d = CHR ''D'' then Some (TCls True Digit)
      else if d = CHR ''w'' then Some (TCls False Word)
      else if d = CHR ''W'' then Some (TCls True Word)
      else if d \<in> set syntax_chars then Some (TLit d)
      else None)"

definition plain_char :: "char \<Rightarrow> bool" where
  \<comment> \<open>a pattern character that stands for itself\<close>
  "plain_char c = (c \<notin> set (''^$.*+?()[]{}|'' @ [bslash]))"

definition tcons :: "token \<Rightarrow> rx_error + token list \<Rightarrow> rx_error + token list" where
  "tcons t r = (case r of Inl e \<Rightarrow> Inl e | Inr ts \<Rightarrow> Inr (t # ts))"

fun lex :: "string \<Rightarrow> rx_error + token list" where
  "lex [] = Inr []"
| "lex (c # cs) =
     (if c = bslash then
        (case cs of
           [] \<Rightarrow> Inl SyntaxError
         | d # ds \<Rightarrow> (case escape_tok d of None \<Rightarrow> Inl Unsupported | Some t \<Rightarrow> tcons t (lex ds)))
      else if c = CHR ''('' then
        (case cs of
           [] \<Rightarrow> tcons TOpen (lex cs)
         | d # ds \<Rightarrow>
             if d = CHR ''?'' then
               (case ds of
                  [] \<Rightarrow> Inl Unsupported
                | e # es \<Rightarrow> if e = CHR '':'' then tcons TOpen (lex es) else Inl Unsupported)
             else tcons TOpen (lex cs))
      else if c = CHR '')'' then tcons TClose (lex cs)
      else if c = CHR ''|'' then tcons TBar (lex cs)
      else if c = CHR ''*'' then tcons TStar (lex cs)
      else if c = CHR ''+'' then tcons TPlus (lex cs)
      else if c = CHR ''?'' then tcons TQuest (lex cs)
      else if c = CHR ''.'' then tcons TDot (lex cs)
      else if c = CHR ''^'' then tcons TBol (lex cs)
      else if c = CHR ''$'' then tcons TEol (lex cs)
      else if plain_char c then tcons (TLit c) (lex cs)
      else Inl Unsupported)"

datatype qstate = NoAtom | Atom | Quantified | Lazy

text \<open>
  The parser keeps a stack of the groups that are open; \<open>q\<close> says what a quantifier would
  apply to: nothing (at the start of an alternative, and after an anchor), an atom, or a
  quantified atom, which a question mark makes lazy without changing what matches.
\<close>

definition mk_seq :: "rexp list \<Rightarrow> rexp" where
  "mk_seq rs = foldr Seq rs Eps"

definition mk_alt :: "rexp list \<Rightarrow> rexp" where
  "mk_alt rs = foldr Alt rs Nul"

definition close_group :: "rexp list \<Rightarrow> rexp list \<Rightarrow> rexp" where
  \<comment> \<open>alternatives and current sequence are kept newest first\<close>
  "close_group alts cur = mk_alt (rev (mk_seq (rev cur) # alts))"

definition quantify :: "token \<Rightarrow> rexp \<Rightarrow> rexp" where
  "quantify t r = (if t = TStar then Star r else if t = TPlus then Seq r (Star r) else Alt r Eps)"

fun parse ::
  "(rexp list \<times> rexp list) list \<Rightarrow> rexp list \<Rightarrow> rexp list \<Rightarrow> qstate \<Rightarrow> token list
     \<Rightarrow> rx_error + rexp" where
  "parse stack alts cur q [] =
     (if stack = [] then Inr (close_group alts cur) else Inl SyntaxError)"
| "parse stack alts cur q (TLit c # ts) = parse stack alts (Chr c # cur) Atom ts"
| "parse stack alts cur q (TDot # ts) = parse stack alts (Dot # cur) Atom ts"
| "parse stack alts cur q (TCls neg k # ts) = parse stack alts (Cls neg k # cur) Atom ts"
| "parse stack alts cur q (TBol # ts) = parse stack alts (Bol # cur) NoAtom ts"
| "parse stack alts cur q (TEol # ts) = parse stack alts (Eol # cur) NoAtom ts"
| "parse stack alts cur q (TOpen # ts) = parse ((alts, cur) # stack) [] [] NoAtom ts"
| "parse stack alts cur q (TClose # ts) =
     (case stack of
        [] \<Rightarrow> Inl SyntaxError
      | (alts', cur') # stack' \<Rightarrow> parse stack' alts' (close_group alts cur # cur') Atom ts)"
| "parse stack alts cur q (TBar # ts) = parse stack (mk_seq (rev cur) # alts) [] NoAtom ts"
| "parse stack alts cur q (t # ts) =
     (case cur of
        [] \<Rightarrow> Inl SyntaxError
      | a # cur' \<Rightarrow>
          if q = Atom then parse stack alts (quantify t a # cur') Quantified ts
          else if q = Quantified \<and> t = TQuest then parse stack alts cur Lazy ts
          else Inl SyntaxError)"

definition parse_pattern :: "string \<Rightarrow> rx_error + rexp" where
  "parse_pattern src = (case lex src of Inl e \<Rightarrow> Inl e | Inr ts \<Rightarrow> parse [] [] [] NoAtom ts)"

record regexp =
  tree :: rexp
  ignoreCase :: bool

definition RegExp :: "string \<Rightarrow> bool \<Rightarrow> rx_error + regexp" where
  \<comment> \<open>\<^verbatim>\<open>new RegExp(src)\<close> and \<^verbatim>\<open>new RegExp(src, 'i')\<close>\<close>
  "RegExp src i =
     (case parse_pattern src of Inl e \<Rightarrow> Inl e | Inr r \<Rightarrow> Inr \<lparr>tree = r, ignoreCase = i\<rparr>)"

definition exec :: "regexp \<Rightarrow> string \<Rightarrow> bool" where
  \<comment> \<open>whether \<^verbatim>\<open>re.exec(s)\<close> is a match (truthy) or null; \<^verbatim>\<open>re.test(s)\<close> is the same Boolean\<close>
  "exec re s = search (ignoreCase re) True (tree re) s"

subsection \<open>String methods\<close>

definition join :: "string \<Rightarrow> string list \<Rightarrow> string" where
  "join sep xs = (case xs of [] \<Rightarrow> [] | y # ys \<Rightarrow> y @ concat (map (\<lambda>z. sep @ z) ys))"

definition trim :: "string \<Rightarrow> string" where
  "trim s = rev (dropWhile white_space (rev (dropWhile white_space s)))"

fun replace_slash :: "string \<Rightarrow> string" where
  \<comment> \<open>\<^verbatim>\<open>s.replace('/', '\\/')\<close>: the first slash only\<close>
  "replace_slash [] = []"
| "replace_slash (c # cs) = (if c = CHR ''/'' then bslash # CHR ''/'' # cs else c # replace_slash cs)"

definition strip_dot_slash :: "string \<Rightarrow> string" where
  \<comment> \<open>\<^verbatim>\<open>s.replace(/^\.\//, '')\<close>\<close>
  "strip_dot_slash s = (if take 2 s = ''./'' then drop 2 s else s)"

definition ends_with_slash :: "string \<Rightarrow> bool" where
  \<comment> \<open>\<^verbatim>\<open>s[s.length - 1] === '/'\<close>, false on the empty string\<close>
  "ends_with_slash s = (s \<noteq> [] \<and> last s = CHR ''/'')"

section \<open>Packages and their hook configuration\<close>

record package =
  name :: string
  absolute :: string
  relative :: string

text \<open>
  The \<^verbatim>\<open>npm-git-hooks\<close> section of a manifest, as the parsed JSON object: a key that is
  absent reads as \<^verbatim>\<open>undefined\<close>, here \<open>None\<close>. The dispatchers read the section
  differently (\<^verbatim>\<open>skip-users\<close> at the top level or under \<^verbatim>\<open>restrictions\<close>; a hook's entry
  as a list of commands or as an object with \<^verbatim>\<open>tasks\<close>), so both shapes are kept.
\<close>

record restriction_set =
  folders :: "string list option"
  fileTypes :: "string list option"
  skip_users_in :: "string list option"

record hook_object =
  tasks :: "string list option"
  hook_enabled :: "bool option"
  hook_restrictions :: "restriction_set option"

datatype hook_entry = TaskList "string list" | HookObject hook_object

record hooks_config =
  enabled :: "bool option"
  skip_users :: "string list option"
  restrictions :: "restriction_set option"
  commit_msg :: "string option"
  hook :: "string \<Rightarrow> hook_entry option"

section \<open>The file pattern (buildFilePattern)\<close>

definition norm_folder :: "string \<Rightarrow> string" where
  "norm_folder f =
     replace_slash (strip_dot_slash (if ends_with_slash f then f else f @ ''/''))"

definition ext_sep :: string where
  \<comment> \<open>the separator of \<^verbatim>\<open>fileTypes.join(`\\s+\\||`)\<close>: backslash, s, plus, backslash, bar, bar\<close>
  "ext_sep = [bslash] @ ''s+'' @ [bslash] @ ''||''"

definition pattern_source :: "restriction_set option \<Rightarrow> string \<Rightarrow> string" where
  "pattern_source rs rel =
     (let relative' = (if ends_with_slash rel then butlast rel else rel);
          pattern0 = ''(?:.+'' @ relative' @ [bslash] @ ''/)?'';
          pattern1 =
            (case rs of
               None \<Rightarrow> pattern0
             | Some r \<Rightarrow>
                 (case folders r of
                    None \<Rightarrow> pattern0
                  | Some fs \<Rightarrow> pattern0 @ ''(?:'' @ join ''|'' (map norm_folder fs) @ '')''));
          pattern2 =
            (case rs of
               None \<Rightarrow> pattern1
             | Some r \<Rightarrow>
                 (case fileTypes r of
                    None \<Rightarrow> pattern1
                  | Some ts \<Rightarrow> pattern1 @ ''.+'' @ [bslash] @ ''.(?:'' @ join ext_sep ts @ '')''));
          done = (case rs of None \<Rightarrow> False | Some r \<Rightarrow> fileTypes r \<noteq> None)
      in pattern2 @ (if done then [] else ''.+''))"

definition buildFilePattern :: "restriction_set option \<Rightarrow> string \<Rightarrow> rx_error + regexp" where
  "buildFilePattern rs rel = RegExp (pattern_source rs rel) True"

definition accepts :: "regexp \<Rightarrow> string \<Rightarrow> bool" where
  \<comment> \<open>the predicate the dispatchers apply: \<^verbatim>\<open>file => filePattern.exec(file.toString().trim())\<close>\<close>
  "accepts re file = exec re (trim file)"

section \<open>Errors, console events and handlers\<close>

datatype error =
    NoConfigError string
  | NoTaskError string
  | NoFileError string
  | RunTaskError string string
  | NoCommitsError
  | NoStagedFileError
  | PathNotFoundError
  | TypeError
  | RegExpError rx_error
  | SystemError

datatype event =
    Running string string
  | Info error
  | Fatal error
  | SkipUser string
  | SkipDisabled string
  | AllSuccessful

datatype status = Exit nat | Returned

datatype jsval = JBool bool | JError error

fun is_NoConfigError :: "error \<Rightarrow> bool" where
  "is_NoConfigError (NoConfigError n) = True"
| "is_NoConfigError e = False"

fun is_NoTaskError :: "error \<Rightarrow> bool" where
  "is_NoTaskError (NoTaskError n) = True"
| "is_NoTaskError e = False"

fun is_NoFileError :: "error \<Rightarrow> bool" where
  "is_NoFileError (NoFileError n) = True"
| "is_NoFileError e = False"

fun is_RunTaskError :: "error \<Rightarrow> bool" where
  "is_RunTaskError (RunTaskError t p) = True"
| "is_RunTaskError e = False"

text \<open>
  What a run leaves behind is the list of its console events (a task being run, an
  informational or a fatal message, the two skip messages, the success message) and how
  it ended: with \<^verbatim>\<open>process.exit\<close>, or by returning.

  A handler returns what it logs and, when it calls \<^verbatim>\<open>process.exit\<close>, the exit code.
  Three versions of \<^verbatim>\<open>errorCallback\<close> are in the repository.
\<close>

type_synonym callback_result = "event list \<times> nat option"

definition successCallback :: callback_result where
  \<comment> \<open>the versions that end with \<^verbatim>\<open>process.exit(0)\<close>\<close>
  "successCallback = ([AllSuccessful], Some 0)"

fun errorCallback_switch :: "error list \<Rightarrow> callback_result" where
  \<comment> \<open>lib/handlers.js, second version: \<^verbatim>\<open>switch (e) { case (e instanceof NoConfigError): ... }\<close>
      compares the error itself with each Boolean label by strict equality\<close>
  "errorCallback_switch [] = successCallback"
| "errorCallback_switch (e # es) =
     (if JError e = JBool (is_NoConfigError e) \<or> JError e = JBool (is_NoTaskError e)
         \<or> JError e = JBool (is_NoFileError e) \<or> JError e = JBool (e = NoCommitsError)
      then (case errorCallback_switch es of (evs, x) \<Rightarrow> (Info e # evs, x))
      else ([Fatal e], Some 1))"

fun errorCallback_list :: "error list \<Rightarrow> callback_result" where
  \<comment> \<open>the version with \<^verbatim>\<open>instanceof\<close> tests in an \<^verbatim>\<open>if\<close>\<close>
  "errorCallback_list [] = ([], None)"
| "errorCallback_list (e # es) =
     (if is_NoConfigError e \<or> is_NoTaskError e \<or> is_NoFileError e \<or> e = NoCommitsError
      then (case errorCallback_list es of (evs, x) \<Rightarrow> (Info e # evs, x))
      else ([Fatal e], Some 1))"

definition errorCallback_single :: "error \<Rightarrow> callback_result" where
  \<comment> \<open>lib/handlers.js, first version, one error at a time\<close>
  "errorCallback_single e =
     (if is_NoConfigError e \<or> is_NoFileError e \<or> e = NoCommitsError then ([Info e], None)
      else if is_RunTaskError e then ([Fatal e], Some 1)
      else ([Fatal e], Some 1))"

record handlers =
  errorCallback :: "error list \<Rightarrow> callback_result"
  onSuccess :: callback_result

definition handlers_switch :: handlers where
  "handlers_switch = \<lparr>errorCallback = errorCallback_switch, onSuccess = successCallback\<rparr>"

definition handlers_list :: handlers where
  "handlers_list = \<lparr>errorCallback = errorCallback_list, onSuccess = successCallback\<rparr>"

section \<open>The environment of a run\<close>

text \<open>
  What a run reads from outside: the git user, the manifest \<^verbatim>\<open>require\<close> returns for a path
  (\<open>None\<close> when it throws), whether \<^verbatim>\<open>process.chdir\<close> succeeds, what a shell command does
  in a directory (it ends with an exit code, or \<^verbatim>\<open>exec\<close> itself throws), the staged files,
  the commits and the diff that \<^verbatim>\<open>getCommitedFiles\<close> reads, the last commit message, and
  what \<^verbatim>\<open>new RegExp(source)\<close> gives for a commit-message pattern. Such a pattern is written
  by the user and may be any expression of the language, so the constructor is taken from
  the runtime here: \<open>None\<close> when it throws, otherwise the \<^verbatim>\<open>test\<close> method of the object it
  builds. The file patterns, which the program builds itself, go through \<open>RegExp\<close> above.
\<close>

datatype exec_result = ExitCode nat | ExecThrows

record manifest =
  pkg_name :: string
  hooks_section :: "hooks_config option"

record env =
  username :: string
  require :: "string \<Rightarrow> manifest option"
  chdir_ok :: "string \<Rightarrow> bool"
  shell_exec :: "string \<Rightarrow> string \<Rightarrow> exec_result"
  staged :: "string list"
  commits :: "string list"
  diff_stat :: "string list"
  commit_message :: string
  new_RegExp :: "string \<Rightarrow> (string \<Rightarrow> bool) option"

datatype filelist = Flag bool | Files "string list"

section \<open>The git collaborator (lib/git.js)\<close>

definition getStagedFiles :: "env \<Rightarrow> error + string list" where
  "getStagedFiles e = (if staged e = [] then Inl NoStagedFileError else Inr (staged e))"

definition getCommitedFiles_try :: "env \<Rightarrow> error + string list" where
  \<comment> \<open>the body of the \<^verbatim>\<open>try\<close> block\<close>
  "getCommitedFiles_try e = (if commits e = [] then Inl NoCommitsError else Inr (diff_stat e))"

definition getCommitedFiles :: "env \<Rightarrow> (event list \<times> nat) + string list" where
  \<comment> \<open>the \<^verbatim>\<open>catch\<close> prints the error and calls \<^verbatim>\<open>process.exit(1)\<close>\<close>
  "getCommitedFiles e =
     (case getCommitedFiles_try e of Inl err \<Rightarrow> Inl ([Fatal err], 1) | Inr fs \<Rightarrow> Inr fs)"

section \<open>The one-pass dispatcher (src/npm-git-hooks.js)\<close>

definition manifest_path :: "package \<Rightarrow> string" where
  \<comment> \<open>\<^verbatim>\<open>utils.resolve(pkg.absolute, 'package.json')\<close>\<close>
  "manifest_path pkg = absolute pkg @ ''/package.json''"

definition getPackageConfig :: "manifest \<Rightarrow> error + hooks_config" where
  "getPackageConfig json =
     (case hooks_section json of None \<Rightarrow> Inl (NoConfigError (pkg_name json)) | Some config \<Rightarrow> Inr config)"

definition runTask :: "env \<Rightarrow> string \<Rightarrow> package \<Rightarrow> event list \<times> error option" where
  \<comment> \<open>the value \<^verbatim>\<open>shell.exec\<close> returns, exit code included, is dropped; only an exception
      inside the \<^verbatim>\<open>try\<close> becomes a RunTaskError\<close>
  "runTask e task pkg =
     (if \<not> chdir_ok e (absolute pkg) then ([], Some (RunTaskError task (name pkg)))
      else (case shell_exec e task (absolute pkg) of
              ExecThrows \<Rightarrow> ([Running task (absolute pkg)], Some (RunTaskError task (name pkg)))
            | ExitCode n \<Rightarrow> ([Running task (absolute pkg)], None)))"

fun forEach_runTask :: "env \<Rightarrow> string list \<Rightarrow> package \<Rightarrow> event list \<times> error option" where
  "forEach_runTask e [] pkg = ([], None)"
| "forEach_runTask e (t # ts) pkg =
     (case runTask e t pkg of
        (evs, Some err) \<Rightarrow> (evs, Some err)
      | (evs, None) \<Rightarrow> (case forEach_runTask e ts pkg of (evs', r) \<Rightarrow> (evs @ evs', r)))"

definition runTasks ::
  "env \<Rightarrow> hook_entry option \<Rightarrow> package \<Rightarrow> bool \<Rightarrow> event list \<times> error option" where
  \<comment> \<open>\<^verbatim>\<open>config\<close> is \<^verbatim>\<open>config[operation]\<close> of the caller; reading \<^verbatim>\<open>.tasks\<close> of
      \<^verbatim>\<open>undefined\<close> is a TypeError, an array has no \<^verbatim>\<open>tasks\<close>\<close>
  "runTasks e config pkg files =
     (if files then
        (case config of
           None \<Rightarrow> ([], Some TypeError)
         | Some (TaskList l) \<Rightarrow> ([], Some (NoTaskError (name pkg)))
         | Some (HookObject h) \<Rightarrow>
             (case tasks h of
                None \<Rightarrow> ([], Some (NoTaskError (name pkg)))
              | Some ts \<Rightarrow>
                  if ts = [] then ([], Some (NoTaskError (name pkg))) else forEach_runTask e ts pkg))
      else ([], Some (NoFileError (name pkg))))"

datatype body_result =
    Return "event list"
  | Normal "event list"
  | Throws "event list" error

definition any_file :: "regexp \<Rightarrow> filelist \<Rightarrow> bool" where
  "any_file filePattern fileList =
     (case fileList of Flag b \<Rightarrow> b | Files fs \<Rightarrow> list_ex (accepts filePattern) fs)"

definition run_body :: "env \<Rightarrow> string \<Rightarrow> filelist \<Rightarrow> package \<Rightarrow> body_result" where
  \<comment> \<open>the \<^verbatim>\<open>try\<close> block of the loop; \<open>Return\<close> is the \<^verbatim>\<open>return\<close> statement\<close>
  "run_body e operation fileList pkg =
     (case require e (manifest_path pkg) of
        None \<Rightarrow> Throws [] SystemError
      | Some json \<Rightarrow>
          (case getPackageConfig json of
             Inl err \<Rightarrow> Throws [] err
           | Inr config \<Rightarrow>
               (case restrictions config of
                  None \<Rightarrow> Throws [] TypeError
                | Some rs \<Rightarrow>
                    (case skip_users_in rs of
                       None \<Rightarrow> Throws [] TypeError
                     | Some users \<Rightarrow>
                         if username e \<in> set users then Return [SkipUser (name pkg)]
                         else if enabled config \<noteq> Some True then Return [SkipDisabled (name pkg)]
                         else
                           (case buildFilePattern (restrictions config) (relative pkg) of
                              Inl rx \<Rightarrow> Throws [] (RegExpError rx)
                            | Inr filePattern \<Rightarrow>
                                (case runTasks e (hook config operation) pkg
                                        (any_file filePattern fileList) of
                                   (evs, None) \<Rightarrow> Normal evs
                                 | (evs, Some err) \<Rightarrow> Throws evs err))))))"

definition finish :: "callback_result \<Rightarrow> event list \<times> status" where
  "finish r = (case r of (evs, Some n) \<Rightarrow> (evs, Exit n) | (evs, None) \<Rightarrow> (evs, Returned))"

definition after :: "event list \<Rightarrow> event list \<times> status \<Rightarrow> event list \<times> status" where
  "after evs r = (case r of (evs', st) \<Rightarrow> (evs @ evs', st))"

fun run_loop ::
  "handlers \<Rightarrow> env \<Rightarrow> string \<Rightarrow> filelist \<Rightarrow> package list \<Rightarrow> error list
     \<Rightarrow> event list \<times> status" where
  "run_loop h e operation fileList [] errors =
     (if errors = [] then finish (onSuccess h) else ([], Returned))"
| "run_loop h e operation fileList (pkg # pkgs) errors =
     (case run_body e operation fileList pkg of
        Return evs \<Rightarrow> (evs, Returned)
      | Normal evs \<Rightarrow> after evs (run_loop h e operation fileList pkgs errors)
      | Throws evs err \<Rightarrow>
          if is_RunTaskError err then (evs @ [Fatal err], Exit 1)
          else
            (case errorCallback h [err] of
               (evs', Some n) \<Rightarrow> (evs @ evs', Exit n)
             | (evs', None) \<Rightarrow>
                 after (evs @ evs') (run_loop h e operation fileList pkgs (errors @ [err]))))"

definition run :: "handlers \<Rightarrow> env \<Rightarrow> string \<Rightarrow> filelist \<Rightarrow> package list \<Rightarrow> event list \<times> status" where
  \<comment> \<open>the packages are those \<^verbatim>\<open>findAllPackages\<close> returned, in its order\<close>
  "run h e operation fileList packages = run_loop h e operation fileList packages []"

section \<open>The earlier one-pass dispatcher (a \<^verbatim>\<open>forEach\<close> inside a promise)\<close>

text \<open>
  This version resolves the configuration of the hook being run: its \<^verbatim>\<open>getPackageConfig\<close>
  returns \<^verbatim>\<open>pkg['npm-git-hooks'][hook]\<close>, or \<^verbatim>\<open>true\<close> (here \<open>None\<close>) for an empty hook name.
  \<^verbatim>\<open>runTask\<close> is the same function as in src/npm-git-hooks.js.
\<close>

definition getPackageConfig_hook :: "manifest \<Rightarrow> string \<Rightarrow> error + hook_entry option" where
  "getPackageConfig_hook json hk =
     (case hooks_section json of
        None \<Rightarrow> Inl (NoConfigError (pkg_name json))
      | Some c \<Rightarrow>
          if hk = [] then Inr None
          else (case hook c hk of None \<Rightarrow> Inl (NoConfigError (pkg_name json)) | Some h \<Rightarrow> Inr (Some h)))"

definition runTasks_hook :: "env \<Rightarrow> hook_object \<Rightarrow> package \<Rightarrow> bool \<Rightarrow> event list \<times> error option" where
  "runTasks_hook e config pkg files =
     (if files then
        (case tasks config of
           None \<Rightarrow> ([], Some (NoTaskError (name pkg)))
         | Some ts \<Rightarrow>
             if ts = [] then ([], Some (NoTaskError (name pkg))) else forEach_runTask e ts pkg)
      else ([], Some (NoFileError (name pkg))))"

definition callback_body :: "env \<Rightarrow> string \<Rightarrow> filelist \<Rightarrow> package \<Rightarrow> body_result" where
  \<comment> \<open>the \<^verbatim>\<open>try\<close> block of the \<^verbatim>\<open>forEach\<close> callback; the disabled branch only logs\<close>
  "callback_body e operation fileList pkg =
     (case require e (absolute pkg) of
        None \<Rightarrow> Throws [] SystemError
      | Some json \<Rightarrow>
          (case getPackageConfig_hook json operation of
             Inl err \<Rightarrow> Throws [] err
           | Inr None \<Rightarrow> Throws [] TypeError
           | Inr (Some (TaskList l)) \<Rightarrow> Throws [] TypeError
           | Inr (Some (HookObject config)) \<Rightarrow>
               (case hook_restrictions config of
                  None \<Rightarrow> Throws [] TypeError
                | Some rs \<Rightarrow>
                    (case skip_users_in rs of
                       None \<Rightarrow> Throws [] TypeError
                     | Some users \<Rightarrow>
                         if username e \<in> set users then Return [SkipUser (name pkg)]
                         else
                           (let logged =
                                  (if hook_enabled config \<noteq> Some True
                                   then [SkipDisabled (name pkg)] else [])
                            in case buildFilePattern (hook_restrictions config) (relative pkg) of
                                 Inl rx \<Rightarrow> Throws logged (RegExpError rx)
                               | Inr filePattern \<Rightarrow>
                                   (case runTasks_hook e config pkg (any_file filePattern fileList) of
                                      (evs, None) \<Rightarrow> Normal (logged @ evs)
                                    | (evs, Some err) \<Rightarrow> Throws (logged @ evs) err))))))"

datatype settled = Exited nat | RejectedWith "error list" | ResolvedWith string

fun forEach_package ::
  "env \<Rightarrow> string \<Rightarrow> filelist \<Rightarrow> package list \<Rightarrow> error list \<Rightarrow> event list \<times> settled" where
  "forEach_package e operation fileList [] errors =
     ([], if errors = [] then ResolvedWith operation else RejectedWith errors)"
| "forEach_package e operation fileList (pkg # pkgs) errors =
     (case callback_body e operation fileList pkg of
        Return evs \<Rightarrow>
          (case forEach_package e operation fileList pkgs errors of (evs', r) \<Rightarrow> (evs @ evs', r))
      | Normal evs \<Rightarrow>
          (case forEach_package e operation fileList pkgs errors of (evs', r) \<Rightarrow> (evs @ evs', r))
      | Throws evs err \<Rightarrow>
          if is_RunTaskError err then (evs @ [Fatal err], Exited 1)
          else (case forEach_package e operation fileList pkgs (errors @ [err]) of
                  (evs', r) \<Rightarrow> (evs @ evs', r)))"

definition run_forEach :: "env \<Rightarrow> string \<Rightarrow> filelist \<Rightarrow> package list \<Rightarrow> event list \<times> settled" where
  "run_forEach e operation fileList packages = forEach_package e operation fileList packages []"

section \<open>The promise-based dispatcher (src/main.js)\<close>

record main_config = hooks_config +
  pkg :: package

definition mapPackageConfig :: "env \<Rightarrow> package \<Rightarrow> error + main_config" where
  "mapPackageConfig e p =
     (case require e (manifest_path p) of
        None \<Rightarrow> Inl SystemError
      | Some json \<Rightarrow>
          (case hooks_section json of
             None \<Rightarrow> Inl (NoConfigError (name p))
           | Some c \<Rightarrow>
               Inr \<lparr>enabled = (if enabled c = None then Some True else enabled c),
                    skip_users = skip_users c, restrictions = restrictions c,
                    commit_msg = commit_msg c, hook = hook c, pkg = p\<rparr>))"

definition skipPackage :: "env \<Rightarrow> main_config \<Rightarrow> error + event list \<times> bool" where
  \<comment> \<open>the filter keeps a package when the result is true\<close>
  "skipPackage e config =
     (case skip_users config of
        None \<Rightarrow> Inl TypeError
      | Some users \<Rightarrow>
          if username e \<in> set users then Inr ([SkipUser (name (pkg config))], False)
          else if enabled config \<noteq> Some True then Inr ([SkipDisabled (name (pkg config))], False)
          else Inr ([], True))"

datatype 'a outcome = Value 'a | Thrown error | ProcessExit nat

definition fileMatch :: "env \<Rightarrow> main_config \<Rightarrow> string \<Rightarrow> event list \<times> bool outcome" where
  "fileMatch e config operation =
     (if operation = ''pre-push'' \<or> operation = ''pre-commit'' then
        (case buildFilePattern (restrictions config) (relative (pkg config)) of
           Inl rx \<Rightarrow> ([], Thrown (RegExpError rx))
         | Inr filePattern \<Rightarrow>
             if operation = ''pre-commit'' then
               (case getStagedFiles e of
                  Inl err \<Rightarrow> ([Info err], Value False)
                | Inr fileList \<Rightarrow> ([], Value (list_ex (accepts filePattern) fileList)))
             else
               (case getCommitedFiles e of
                  Inl (evs, n) \<Rightarrow> (evs, ProcessExit n)
                | Inr fileList \<Rightarrow> ([], Value (list_ex (accepts filePattern) fileList))))
      else ([], Value True))"

fun map_configs :: "env \<Rightarrow> package list \<Rightarrow> error + main_config list" where
  "map_configs e [] = Inr []"
| "map_configs e (p # ps) =
     (case mapPackageConfig e p of
        Inl err \<Rightarrow> Inl err
      | Inr c \<Rightarrow> (case map_configs e ps of Inl err \<Rightarrow> Inl err | Inr cs \<Rightarrow> Inr (c # cs)))"

fun filter_skip :: "env \<Rightarrow> main_config list \<Rightarrow> event list \<times> main_config list outcome" where
  "filter_skip e [] = ([], Value [])"
| "filter_skip e (c # cs) =
     (case skipPackage e c of
        Inl err \<Rightarrow> ([], Thrown err)
      | Inr (evs, keep) \<Rightarrow>
          (case filter_skip e cs of
             (evs', Value ks) \<Rightarrow> (evs @ evs', Value (if keep then c # ks else ks))
           | (evs', other) \<Rightarrow> (evs @ evs', other)))"

fun filter_files :: "env \<Rightarrow> string \<Rightarrow> main_config list \<Rightarrow> event list \<times> main_config list outcome" where
  "filter_files e operation [] = ([], Value [])"
| "filter_files e operation (c # cs) =
     (case fileMatch e c operation of
        (evs, Thrown err) \<Rightarrow> (evs, Thrown err)
      | (evs, ProcessExit n) \<Rightarrow> (evs, ProcessExit n)
      | (evs, Value keep) \<Rightarrow>
          (case filter_files e operation cs of
             (evs', Value ks) \<Rightarrow> (evs @ evs', Value (if keep then c # ks else ks))
           | (evs', other) \<Rightarrow> (evs @ evs', other)))"

definition run_configs :: "env \<Rightarrow> string \<Rightarrow> package list \<Rightarrow> event list \<times> main_config list outcome" where
  \<comment> \<open>the synchronous part of \<^verbatim>\<open>run\<close>: the configurations whose tasks are then started\<close>
  "run_configs e operation packages =
     (case map_configs e packages of
        Inl err \<Rightarrow> ([], Thrown err)
      | Inr cs \<Rightarrow>
          (case filter_skip e cs of
             (evs, Value ks) \<Rightarrow>
               (case filter_files e operation ks of (evs', r) \<Rightarrow> (evs @ evs', r))
           | (evs, other) \<Rightarrow> (evs, other)))"

datatype promise = Resolved | Rejected error

definition checkCommitMsg :: "env \<Rightarrow> main_config \<Rightarrow> error + promise" where
  \<comment> \<open>\<open>Inl\<close>: the RegExp constructor throws before the promise is made\<close>
  "checkCommitMsg e config =
     (case commit_msg config of
        None \<Rightarrow> Inr Resolved
      | Some src \<Rightarrow>
          if src = [] then Inr Resolved
          else
            (case new_RegExp e src of
               None \<Rightarrow> Inl (RegExpError SyntaxError)
             | Some test \<Rightarrow>
                 if test (commit_message e) then Inr Resolved
                 else Inr (Rejected (RunTaskError ''commit-msg'' (name (pkg config))))))"

definition runTask_main :: "env \<Rightarrow> string \<Rightarrow> package \<Rightarrow> event list \<times> promise" where
  "runTask_main e task p =
     (if \<not> chdir_ok e (absolute p) then ([], Rejected SystemError)
      else (case shell_exec e task (absolute p) of
              ExecThrows \<Rightarrow> ([Running task (absolute p)], Rejected SystemError)
            | ExitCode n \<Rightarrow>
                if n = 0 then ([Running task (absolute p)], Resolved)
                else ([Running task (absolute p)], Rejected (RunTaskError task (name p)))))"

fun each_runTask :: "env \<Rightarrow> string list \<Rightarrow> package \<Rightarrow> event list \<times> promise" where
  \<comment> \<open>\<^verbatim>\<open>Promise.each\<close>: one task after the other, stopping at the first rejection\<close>
  "each_runTask e [] p = ([], Resolved)"
| "each_runTask e (t # ts) p =
     (case runTask_main e t p of
        (evs, Rejected err) \<Rightarrow> (evs, Rejected err)
      | (evs, Resolved) \<Rightarrow> (case each_runTask e ts p of (evs', r) \<Rightarrow> (evs @ evs', r)))"

text \<open>
  \<^verbatim>\<open>runTasks\<close> returns a promise (\<open>Inr\<close>, with what was printed until it settled) or throws
  before it has one (\<open>Inl\<close>). The callbacks that \<^verbatim>\<open>run\<close> attaches, \<^verbatim>\<open>errorCallback\<close> of one error
  and \<^verbatim>\<open>successCallback\<close> of a package, are those of the first version in lib/handlers.js,
  which exports no \<^verbatim>\<open>NoTaskError\<close>: for a package without a task list
  \<^verbatim>\<open>new handlers.NoTaskError(...)\<close> throws a TypeError before \<^verbatim>\<open>Promise.reject\<close> is called.
\<close>

definition runTasks_main :: "env \<Rightarrow> main_config \<Rightarrow> string \<Rightarrow> error + event list \<times> promise" where
  "runTasks_main e config operation =
     (if operation = ''commit-msg'' then
        (case checkCommitMsg e config of Inl err \<Rightarrow> Inl err | Inr p \<Rightarrow> Inr ([], p))
      else
        (case hook config operation of
           Some (TaskList ts) \<Rightarrow>
             if ts \<noteq> [] then Inr (each_runTask e ts (pkg config))
             else Inl TypeError
         | _ \<Rightarrow> Inl TypeError))"

definition settle :: "promise \<Rightarrow> callback_result" where
  \<comment> \<open>\<^verbatim>\<open>.then(() => handlers.successCallback(...)).catch(handlers.errorCallback)\<close>\<close>
  "settle p = (case p of Resolved \<Rightarrow> ([AllSuccessful], None) | Rejected err \<Rightarrow> errorCallback_single err)"

section \<open>Package discovery (scandir)\<close>

text \<open>
  The part of the file system below the root: a directory lists its entries in the order
  \<^verbatim>\<open>readdirSync\<close> returns them; \<open>Locked\<close> is a directory that \<^verbatim>\<open>statSync\<close> reports as one but
  \<^verbatim>\<open>readdirSync\<close> refuses to list; \<open>File\<close> is any entry for which \<^verbatim>\<open>isADirectory\<close> is false (a
  file, or a path that \<^verbatim>\<open>existsSync\<close> does not reach). When \<^verbatim>\<open>read\<close> is given a path that is
  not a directory, the path ends with a separator, so \<^verbatim>\<open>existsSync\<close> fails and
  PathNotFoundError is thrown.
\<close>

datatype fsnode = File | Locked | Dir "(string \<times> fsnode) list"

fun isADirectory :: "fsnode \<Rightarrow> bool" where
  "isADirectory File = False"
| "isADirectory Locked = True"
| "isADirectory (Dir entries) = True"

fun recursive :: "regexp \<Rightarrow> regexp \<Rightarrow> string \<Rightarrow> fsnode \<Rightarrow> string list \<Rightarrow> error + string list"
  and forEach_sub ::
    "regexp \<Rightarrow> regexp \<Rightarrow> string \<Rightarrow> (string \<times> fsnode) list \<Rightarrow> string list \<Rightarrow> error + string list"
  where
  "recursive pattern exclude dir File list = Inl PathNotFoundError"
| "recursive pattern exclude dir Locked list = Inl SystemError"
| "recursive pattern exclude dir (Dir entries) list = forEach_sub pattern exclude dir entries list"
| "forEach_sub pattern exclude dir [] list = Inr list"
| "forEach_sub pattern exclude dir ((sub, node) # rest) list =
     (if isADirectory node \<and> \<not> exec exclude sub then
        (case recursive pattern exclude (dir @ sub @ ''/'') node list of
           Inl err \<Rightarrow> Inl err
         | Inr list' \<Rightarrow> forEach_sub pattern exclude dir rest list')
      else if exec pattern sub then forEach_sub pattern exclude dir rest (list @ [dir])
      else forEach_sub pattern exclude dir rest list)"

record scan_filter =
  pattern_list :: "string list option"
  exclude_list :: "string list option"

definition or_empty :: "string list option \<Rightarrow> string list" where
  \<comment> \<open>\<^verbatim>\<open>x || []\<close>\<close>
  "or_empty x = (case x of None \<Rightarrow> [] | Some l \<Rightarrow> l)"

definition scandir :: "string \<Rightarrow> scan_filter \<Rightarrow> fsnode \<Rightarrow> error + string list" where
  "scandir dir flt root =
     (let dir' = (if ends_with_slash dir then dir else dir @ ''/'') in
      case RegExp (''('' @ join ''|'' (or_empty (pattern_list flt)) @ '')'') True of
        Inl rx \<Rightarrow> Inl (RegExpError rx)
      | Inr pattern \<Rightarrow>
          (case RegExp (''('' @ join ''|'' (or_empty (exclude_list flt)) @ '')'') True of
             Inl rx \<Rightarrow> Inl (RegExpError rx)
           | Inr exclude \<Rightarrow> recursive pattern exclude dir' root []))"

definition package_filter :: scan_filter where
  "package_filter = \<lparr>pattern_list = Some [''package.json''], exclude_list = Some [''node_modules'']\<rparr>"

fun blocked :: "regexp \<Rightarrow> fsnode \<Rightarrow> bool"
  and blocked_in :: "regexp \<Rightarrow> (string \<times> fsnode) list \<Rightarrow> bool" where
  \<comment> \<open>some directory that the walk enters cannot be listed\<close>
  "blocked exclude File = False"
| "blocked exclude Locked = True"
| "blocked exclude (Dir entries) = blocked_in exclude entries"
| "blocked_in exclude [] = False"
| "blocked_in exclude ((sub, node) # rest) =
     ((isADirectory node \<and> \<not> exec exclude sub \<and> blocked exclude node) \<or> blocked_in exclude rest)"

section \<open>What a pattern accepts, in terms of strings\<close>

subsection \<open>The language of a syntax tree\<close>

definition conc :: "string set \<Rightarrow> string set \<Rightarrow> string set" where
  "conc A B = {u @ v | u v. u \<in> A \<and> v \<in> B}"

inductive_set star :: "string set \<Rightarrow> string set" for A :: "string set" where
  empty: "[] \<in> star A"
| more: "u \<in> A \<Longrightarrow> v \<in> star A \<Longrightarrow> u @ v \<in> star A"


fun lang :: "bool \<Rightarrow> rexp \<Rightarrow> string set" where
  \<comment> \<open>the strings a tree without anchors matches\<close>
  "lang ic Nul = {}"
| "lang ic Bol = {}"
| "lang ic Eol = {}"
| "lang ic Eps = {[]}"
| "lang ic (Chr d) = {[c] | c. ch_eq ic c d}"
| "lang ic Dot = {[c] | c. \<not> line_term c}"
| "lang ic (Cls neg k) = {[c] | c. in_class k c \<noteq> neg}"
| "lang ic (Seq r s) = conc (lang ic r) (lang ic s)"
| "lang ic (Alt r s) = lang ic r \<union> lang ic s"
| "lang ic (Star r) = star (lang ic r)"


definition same_ci :: "string \<Rightarrow> string \<Rightarrow> bool" where
  \<comment> \<open>equal up to the case of letters\<close>
  "same_ci u w = (map canon u = map canon w)"

subsection \<open>Pattern sources without metacharacters\<close>

definition plain :: "string \<Rightarrow> bool" where
  "plain s = list_all plain_char s"

definition plain_or_dot :: "string \<Rightarrow> bool" where
  "plain_or_dot s = list_all (\<lambda>c. plain_char c \<or> c = CHR ''.'') s"

definition plain_restrictions :: "restriction_set option \<Rightarrow> bool" where
  "plain_restrictions rs =
     (case rs of
        None \<Rightarrow> True
      | Some r \<Rightarrow>
          (case folders r of None \<Rightarrow> True | Some fs \<Rightarrow> list_all plain fs) \<and>
          (case fileTypes r of None \<Rightarrow> True | Some ts \<Rightarrow> list_all plain ts))"

definition configured_folders :: "restriction_set option \<Rightarrow> string list option" where
  "configured_folders rs = (case rs of None \<Rightarrow> None | Some r \<Rightarrow> folders r)"

definition configured_types :: "restriction_set option \<Rightarrow> string list option" where
  "configured_types rs = (case rs of None \<Rightarrow> None | Some r \<Rightarrow> fileTypes r)"

definition with_slash :: "string \<Rightarrow> string" where
  "with_slash f = (if ends_with_slash f then f else f @ ''/'')"

datatype piece = PLit char | PDot | PSpaces | PDots

fun piece_tokens :: "piece \<Rightarrow> token list" where
  "piece_tokens (PLit c) = [TLit c]"
| "piece_tokens PDot = [TDot]"
| "piece_tokens PSpaces = [TCls False Space, TPlus]"
| "piece_tokens PDots = [TDot, TPlus]"

fun piece_tree :: "piece \<Rightarrow> rexp" where
  "piece_tree (PLit c) = Chr c"
| "piece_tree PDot = Dot"
| "piece_tree PSpaces = Seq (Cls False Space) (Star (Cls False Space))"
| "piece_tree PDots = Seq Dot (Star Dot)"

definition path_piece :: "char \<Rightarrow> piece" where
  "path_piece c = (if c = CHR ''.'' then PDot else PLit c)"

definition lexes_to :: "string \<Rightarrow> token list \<Rightarrow> bool" where
  \<comment> \<open>a piece of source text that always yields the same tokens, whatever follows\<close>
  "lexes_to a ts = (\<forall>b. lex (a @ b) = map_sum id ((@) ts) (lex b))"

definition pieces_tokens :: "piece list \<Rightarrow> token list" where
  "pieces_tokens ps = concat (map piece_tokens ps)"

definition pieces_tree :: "piece list \<Rightarrow> rexp" where
  "pieces_tree ps = mk_seq (map piece_tree ps)"

fun alt_tokens :: "piece list list \<Rightarrow> token list" where
  "alt_tokens [] = []"
| "alt_tokens [ps] = pieces_tokens ps"
| "alt_tokens (ps # qs # rest) = pieces_tokens ps @ TBar # alt_tokens (qs # rest)"

definition group_tree :: "piece list list \<Rightarrow> rexp" where
  "group_tree pss = mk_alt (map pieces_tree (if pss = [] then [[]] else pss))"

fun type_pieces :: "string list \<Rightarrow> piece list list" where
  "type_pieces [] = []"
| "type_pieces [e] = [map PLit e]"
| "type_pieces (e # e' # es) = (map PLit e @ [PSpaces, PLit (CHR ''|'')]) # type_pieces (e' # es)"

definition stripped :: "string \<Rightarrow> string" where
  "stripped rel = (if ends_with_slash rel then butlast rel else rel)"

definition prefix_pieces :: "string \<Rightarrow> piece list" where
  "prefix_pieces rel = PDots # map path_piece (stripped rel) @ [PLit (CHR ''/'')]"

definition folder_pieces :: "string list \<Rightarrow> piece list list" where
  "folder_pieces fs = map (\<lambda>f. map PLit (with_slash f)) fs"

definition pattern_tokens :: "restriction_set option \<Rightarrow> string \<Rightarrow> token list" where
  "pattern_tokens rs rel =
     TOpen # alt_tokens [prefix_pieces rel] @ [TClose, TQuest] @
     (case configured_folders rs of
        None \<Rightarrow> []
      | Some fs \<Rightarrow> TOpen # alt_tokens (folder_pieces fs) @ [TClose]) @
     (case configured_types rs of
        None \<Rightarrow> pieces_tokens [PDots]
      | Some ts \<Rightarrow>
          pieces_tokens [PDots, PLit (CHR ''.'')] @ TOpen # alt_tokens (type_pieces ts) @ [TClose])"

definition pattern_items :: "restriction_set option \<Rightarrow> string \<Rightarrow> rexp list" where
  "pattern_items rs rel =
     [Alt (group_tree [prefix_pieces rel]) Eps] @
     (case configured_folders rs of
        None \<Rightarrow> []
      | Some fs \<Rightarrow> [group_tree (folder_pieces fs)]) @
     (case configured_types rs of
        None \<Rightarrow> [piece_tree PDots]
      | Some ts \<Rightarrow> [piece_tree PDots, Chr (CHR ''.''), group_tree (type_pieces ts)])"

definition pattern_tree :: "restriction_set option \<Rightarrow> string \<Rightarrow> rexp" where
  "pattern_tree rs rel = mk_alt [mk_seq (pattern_items rs rel)]"

definition continues :: "token list \<Rightarrow> bool" where
  \<comment> \<open>the next token is not a quantifier\<close>
  "continues ts = (case ts of [] \<Rightarrow> True | t # rest \<Rightarrow> t \<noteq> TStar \<and> t \<noteq> TPlus \<and> t \<noteq> TQuest)"

subsection \<open>The accepted paths, as the code has them\<close>




definition verdict :: "restriction_set option \<Rightarrow> string \<Rightarrow> string \<Rightarrow> bool option" where
  \<comment> \<open>building the pattern for a package and applying it to a file; \<open>None\<close> when the
      construction does not return a pattern\<close>
  "verdict rs rel file =
     (case buildFilePattern rs rel of Inl rx \<Rightarrow> None | Inr re \<Rightarrow> Some (accepts re file))"

subsection \<open>The accepted paths, in the words of the specification\<close>

definition starts_with_ci :: "string \<Rightarrow> string \<Rightarrow> bool" where
  "starts_with_ci p s = same_ci (take (length p) s) p"

definition ends_with_ci :: "string \<Rightarrow> string \<Rightarrow> bool" where
  "ends_with_ci p s = same_ci (drop (length s - length p) s) p"

definition remainders :: "string \<Rightarrow> string \<Rightarrow> string list" where
  \<comment> \<open>the path itself, and what follows a prefix \<^verbatim>\<open><anything>/<relativePath>/\<close>\<close>
  "remainders rel s =
     s # map (\<lambda>n. drop n s)
           (filter (\<lambda>n. length rel + 1 < n \<and> ends_with_ci (rel @ ''/'') (take n s))
              [0..<Suc (length s)])"

definition spec_accepts :: "restriction_set option \<Rightarrow> string \<Rightarrow> string \<Rightarrow> bool" where
  \<comment> \<open>Follows the specification: a folder prefix at the start of the remainder, an
      extension at the end of the path, any non-empty path without restrictions.\<close>
  "spec_accepts rs rel s =
     ((case configured_folders rs of
         None \<Rightarrow> True
       | Some fs \<Rightarrow> list_ex (\<lambda>r. list_ex (\<lambda>f. starts_with_ci (with_slash f) r) fs) (remainders rel s)) \<and>
      (case configured_types rs of
         None \<Rightarrow> True
       | Some ts \<Rightarrow> list_ex (\<lambda>e. ends_with_ci (''.'' @ e) s) ts) \<and>
      (if configured_folders rs = None \<and> configured_types rs = None then s \<noteq> [] else True))"

section \<open>Example repositories\<close>

definition no_restrictions :: restriction_set where
  "no_restrictions = \<lparr>folders = None, fileTypes = None, skip_users_in = Some []\<rparr>"

definition hook_tasks :: "string list \<Rightarrow> hook_object" where
  "hook_tasks ts = \<lparr>tasks = Some ts, hook_enabled = Some True, hook_restrictions = Some no_restrictions\<rparr>"

definition only_hook :: "string \<Rightarrow> hook_entry \<Rightarrow> string \<Rightarrow> hook_entry option" where
  "only_hook operation entry op = (if op = operation then Some entry else None)"

definition config_with :: "string \<Rightarrow> string list \<Rightarrow> hooks_config" where
  "config_with operation ts =
     \<lparr>enabled = Some True, skip_users = Some [], restrictions = Some no_restrictions,
      commit_msg = None, hook = only_hook operation (HookObject (hook_tasks ts))\<rparr>"

definition pkg_A :: package where
  "pkg_A = \<lparr>name = ''A'', absolute = ''/repo/A'', relative = ''./A''\<rparr>"

definition pkg_B :: package where
  "pkg_B = \<lparr>name = ''B'', absolute = ''/repo/B'', relative = ''./B''\<rparr>"

text \<open>
  Two packages, A and B, below \<^verbatim>\<open>/repo\<close>. The same manifest is returned for a package's
  directory and for its \<^verbatim>\<open>package.json\<close>, since the dispatchers require one or the other.
\<close>

definition two_manifests :: "hooks_config option \<Rightarrow> hooks_config option \<Rightarrow> string \<Rightarrow> manifest option" where
  "two_manifests a b path =
     (if path = ''/repo/A/package.json'' \<or> path = ''/repo/A'' then Some \<lparr>pkg_name = ''A'', hooks_section = a\<rparr>
      else if path = ''/repo/B/package.json'' \<or> path = ''/repo/B'' then Some \<lparr>pkg_name = ''B'', hooks_section = b\<rparr>
      else None)"

definition test_of :: "string \<Rightarrow> (string \<Rightarrow> bool) option" where
  \<comment> \<open>the constructor of the example environments: an expression of the syntax above as
      \<open>RegExp\<close> builds it, without flags; the examples call it on such expressions only\<close>
  "test_of src = (case RegExp src False of Inr re \<Rightarrow> Some (exec re) | Inl rx \<Rightarrow> None)"

definition env_with :: "hooks_config option \<Rightarrow> hooks_config option \<Rightarrow> env" where
  \<comment> \<open>user \<^verbatim>\<open>dev\<close>; the command \<^verbatim>\<open>exit 1\<close> exits with code 1, every other command with 0\<close>
  "env_with a b =
     \<lparr>username = ''dev'', require = two_manifests a b, chdir_ok = (\<lambda>d. True),
      shell_exec = (\<lambda>task dir. if task = ''exit 1'' then ExitCode 1 else ExitCode 0),
      staged = [], commits = [], diff_stat = [], commit_message = ''fix bug'',
      new_RegExp = test_of\<rparr>"

definition env_failing_task :: env where
  "env_failing_task =
     env_with (Some (config_with ''pre-push'' [''exit 1''])) (Some (config_with ''pre-push'' [''echo B'']))"

definition env_no_config :: env where
  "env_no_config = env_with None (Some (config_with ''pre-commit'' [''echo B'']))"

definition env_skip_user :: env where
  "env_skip_user =
     env_with (Some ((config_with ''pre-push'' [''echo A''])
                 \<lparr>restrictions := Some (no_restrictions\<lparr>skip_users_in := Some [''dev'']\<rparr>)\<rparr>))
              (Some (config_with ''pre-push'' [''echo B'']))"

definition disabled_hook :: hook_object where
  "disabled_hook = (hook_tasks [''echo A''])\<lparr>hook_enabled := Some False\<rparr>"

definition env_disabled :: env where
  "env_disabled =
     env_with (Some ((config_with ''pre-push'' [])\<lparr>hook := only_hook ''pre-push'' (HookObject disabled_hook)\<rparr>))
              None"

definition config_enabled_omitted :: hooks_config where
  "config_enabled_omitted = (config_with ''pre-push'' [''echo A''])\<lparr>enabled := None\<rparr>"

definition env_enabled_omitted :: env where
  "env_enabled_omitted = env_with (Some config_enabled_omitted) None"

definition config_minimal :: hooks_config where
  \<comment> \<open>only the task list of one hook\<close>
  "config_minimal =
     \<lparr>enabled = None, skip_users = None, restrictions = None, commit_msg = None,
      hook = only_hook ''pre-push'' (TaskList [''echo A''])\<rparr>"

definition env_minimal :: env where
  "env_minimal = env_with (Some config_minimal) None"

definition jira_source :: string where
  \<comment> \<open>the pattern \<^verbatim>\<open>^JIRA-\d+\<close>\<close>
  "jira_source = ''^JIRA-'' @ [bslash] @ ''d+''"

definition hooks_jira :: hooks_config where
  "hooks_jira =
     \<lparr>enabled = Some True, skip_users = Some [], restrictions = None,
      commit_msg = Some jira_source,
      hook = only_hook ''pre-commit'' (TaskList [''npm run test''])\<rparr>"

definition config_jira :: main_config where
  \<comment> \<open>what \<^verbatim>\<open>mapPackageConfig\<close> makes of \<open>hooks_jira\<close> for package A\<close>
  "config_jira =
     \<lparr>enabled = Some True, skip_users = Some [], restrictions = None,
      commit_msg = Some jira_source,
      hook = only_hook ''pre-commit'' (TaskList [''npm run test'']), pkg = pkg_A\<rparr>"

definition tree_locked :: fsnode where
  "tree_locked = Dir [(''locked'', Locked), (''package.json'', File)]"

definition tree_empty_dir :: fsnode where
  "tree_empty_dir = Dir [(''locked'', Dir []), (''package.json'', File)]"

definition restrict :: "string list option \<Rightarrow> string list option \<Rightarrow> restriction_set option" where
  \<comment> \<open>a restrictions object with the given \<^verbatim>\<open>folders\<close> and \<^verbatim>\<open>fileTypes\<close>\<close>
  "restrict fs ts = Some \<lparr>folders = fs, fileTypes = ts, skip_users_in = Some []\<rparr>"

definition the_regexp :: "rx_error + regexp \<Rightarrow> regexp" where
  \<comment> \<open>names the object a constructor call returns, for the examples below\<close>
  "the_regexp r = (case r of Inr re \<Rightarrow> re | Inl rx \<Rightarrow> \<lparr>tree = Nul, ignoreCase = False\<rparr>)"

definition config_minimal_main :: main_config where
  "config_minimal_main =
     \<lparr>enabled = Some True, skip_users = None, restrictions = None, commit_msg = None,
      hook = only_hook ''pre-push'' (TaskList [''echo A'']), pkg = pkg_A\<rparr>"

definition minimal_hook :: hook_object where
  "minimal_hook = \<lparr>tasks = Some [''echo A''], hook_enabled = None, hook_restrictions = None\<rparr>"

definition env_minimal_hook :: env where
  "env_minimal_hook =
     env_with (Some (config_minimal\<lparr>hook := only_hook ''pre-push'' (HookObject minimal_hook)\<rparr>)) None"

definition jira_pattern :: regexp where
  "jira_pattern = the_regexp (RegExp jira_source False)"

definition env_jira :: env where
  \<comment> \<open>one staged file below A; the last commit message is \<^verbatim>\<open>fix bug\<close>\<close>
  "env_jira = (env_with (Some hooks_jira) None)\<lparr>staged := [''A/index.js'']\<rparr>"

definition env_jira_message :: env where
  "env_jira_message = env_jira\<lparr>commit_message := ''JIRA-12 fix bug''\<rparr>"

definition package_pattern :: regexp where
  "package_pattern = the_regexp (RegExp ''(package.json)'' True)"

definition exclude_pattern :: regexp where
  "exclude_pattern = the_regexp (RegExp ''(node_modules)'' True)"

section \<open>Matching and the language of a tree\<close>








section \<open>Tokens of a pattern source without metacharacters\<close>

lemma tcons_map_sum: "tcons t r = map_sum id ((@) [t]) r"
  by (cases r) (simp_all add: tcons_def)

lemma lexes_to_Nil: "lexes_to [] []"
proof -
  have "map_sum id ((@) []) r = r" for r :: "rx_error + token list"
    by (cases r) simp_all
  then show ?thesis by (simp add: lexes_to_def)
qed

lemma lexes_to_append:
  assumes "lexes_to a ta" and "lexes_to b tb"
  shows "lexes_to (a @ b) (ta @ tb)"
proof -
  have "map_sum id ((@) ta) (map_sum id ((@) tb) r) = map_sum id ((@) (ta @ tb)) r"
    for r :: "rx_error + token list"
    by (cases r) simp_all
  with assms show ?thesis by (simp add: lexes_to_def)
qed

lemma lexes_to_plain_char: "plain_char c \<Longrightarrow> lexes_to [c] [TLit c]"
  by (auto simp: lexes_to_def plain_char_def tcons_map_sum)

lemma lexes_to_fixed:
  "lexes_to ''(?:'' [TOpen]"
  "lexes_to ''.+'' [TDot, TPlus]"
  "lexes_to ''.'' [TDot]"
  "lexes_to [bslash, CHR ''/''] [TLit (CHR ''/'')]"
  "lexes_to [bslash, CHR ''.''] [TLit (CHR ''.'')]"
  "lexes_to '')?'' [TClose, TQuest]"
  "lexes_to '')'' [TClose]"
  "lexes_to ''|'' [TBar]"
  "lexes_to ext_sep [TCls False Space, TPlus, TLit (CHR ''|''), TBar]"
proof -
  have two: "map_sum id ((@) [s]) (map_sum id ((@) [t]) r) = map_sum id ((@) [s, t]) r"
    for r :: "rx_error + token list" and s t
    by (cases r) simp_all
  have four: "map_sum id ((@) [s]) (map_sum id ((@) [t]) (map_sum id ((@) [u]) (map_sum id ((@) [v]) r)))
      = map_sum id ((@) [s, t, u, v]) r"
    for r :: "rx_error + token list" and s t u v
    by (cases r) simp_all
  show "lexes_to ''(?:'' [TOpen]"
    by (simp add: lexes_to_def tcons_map_sum)
  show "lexes_to ''.+'' [TDot, TPlus]"
    by (simp add: lexes_to_def tcons_map_sum two)
  show "lexes_to ''.'' [TDot]"
    by (simp add: lexes_to_def tcons_map_sum)
  show "lexes_to [bslash, CHR ''/''] [TLit (CHR ''/'')]"
    by (simp add: lexes_to_def tcons_map_sum escape_tok_def syntax_chars_def)
  show "lexes_to [bslash, CHR ''.''] [TLit (CHR ''.'')]"
    by (simp add: lexes_to_def tcons_map_sum escape_tok_def syntax_chars_def)
  show "lexes_to '')?'' [TClose, TQuest]"
    by (simp add: lexes_to_def tcons_map_sum two)
  show "lexes_to '')'' [TClose]"
    by (simp add: lexes_to_def tcons_map_sum)
  show "lexes_to ''|'' [TBar]"
    by (simp add: lexes_to_def tcons_map_sum)
  show "lexes_to ext_sep [TCls False Space, TPlus, TLit (CHR ''|''), TBar]"
    by (simp add: lexes_to_def ext_sep_def tcons_map_sum escape_tok_def syntax_chars_def four)
qed

lemma lexes_to_plain: "plain s \<Longrightarrow> lexes_to s (pieces_tokens (map PLit s))"
proof (induction s)
  case Nil
  then show ?case by (simp add: lexes_to_Nil pieces_tokens_def)
next
  case (Cons c s)
  then have "lexes_to [c] [TLit c]" and "lexes_to s (pieces_tokens (map PLit s))"
    by (simp_all add: plain_def lexes_to_plain_char)
  then have "lexes_to ([c] @ s) ([TLit c] @ pieces_tokens (map PLit s))"
    by (rule lexes_to_append)
  then show ?case by (simp add: pieces_tokens_def)
qed

lemma lexes_to_path: "plain_or_dot s \<Longrightarrow> lexes_to s (pieces_tokens (map path_piece s))"
proof (induction s)
  case Nil
  then show ?case by (simp add: lexes_to_Nil pieces_tokens_def)
next
  case (Cons c s)
  then have s: "lexes_to s (pieces_tokens (map path_piece s))"
    by (simp add: plain_or_dot_def)
  from Cons.prems have "lexes_to [c] (piece_tokens (path_piece c))"
    by (auto simp: plain_or_dot_def path_piece_def lexes_to_plain_char lexes_to_fixed)
  from this s
  have "lexes_to ([c] @ s) (piece_tokens (path_piece c) @ pieces_tokens (map path_piece s))"
    by (rule lexes_to_append)
  then show ?case by (simp add: pieces_tokens_def)
qed

lemma slash_plain: "plain_char (CHR ''/'')"
  by (simp add: plain_char_def)

lemma dot_not_plain: "\<not> plain_char (CHR ''.'')"
  by (simp add: plain_char_def)

lemma lexes_to_replace_slash:
  "plain g \<Longrightarrow> lexes_to (replace_slash g) (pieces_tokens (map PLit g))"
proof (induction g)
  case Nil
  then show ?case by (simp add: lexes_to_Nil pieces_tokens_def)
next
  case (Cons c g)
  then have g: "plain g" and c: "plain_char c" by (simp_all add: plain_def)
  show ?case
  proof (cases "c = CHR ''/''")
    case True
    from lexes_to_append [OF lexes_to_fixed(4) lexes_to_plain [OF g]] True
    show ?thesis by (simp add: pieces_tokens_def)
  next
    case False
    from lexes_to_append [OF lexes_to_plain_char [OF c] Cons.IH [OF g]] False
    show ?thesis by (simp add: pieces_tokens_def)
  qed
qed

lemma plain_with_slash: "plain f \<Longrightarrow> plain (with_slash f)"
  by (simp add: with_slash_def plain_def slash_plain)

lemma strip_plain: "plain g \<Longrightarrow> strip_dot_slash g = g"
  by (cases g) (auto simp: strip_dot_slash_def plain_def dot_not_plain)

lemma lexes_to_folder:
  "plain f \<Longrightarrow> lexes_to (norm_folder f) (pieces_tokens (map PLit (with_slash f)))"
  using lexes_to_replace_slash [OF plain_with_slash, of f] strip_plain [OF plain_with_slash, of f]
  by (simp add: norm_folder_def with_slash_def)

lemma join_simps:
  "join sep [] = []"
  "join sep [x] = x"
  "join sep (x # y # ys) = x @ sep @ join sep (y # ys)"
  by (simp_all add: join_def)

lemma lexes_to_folders:
  "list_all plain fs \<Longrightarrow>
     lexes_to (join ''|'' (map norm_folder fs)) (alt_tokens (folder_pieces fs))"
proof (induction fs rule: induct_list012)
  case 1
  then show ?case by (simp add: join_simps lexes_to_Nil folder_pieces_def)
next
  case (2 f)
  then show ?case by (simp add: join_simps lexes_to_folder folder_pieces_def)
next
  case (3 f g fs)
  then have f: "lexes_to (norm_folder f) (pieces_tokens (map PLit (with_slash f)))"
    and rest: "lexes_to (join ''|'' (map norm_folder (g # fs))) (alt_tokens (folder_pieces (g # fs)))"
    by (simp_all add: lexes_to_folder)
  from lexes_to_append [OF f lexes_to_append [OF lexes_to_fixed(8) rest]]
  show ?case by (simp add: join_simps folder_pieces_def)
qed

lemma alt_tokens_Cons:
  "qs \<noteq> [] \<Longrightarrow> alt_tokens (ps # qs) = pieces_tokens ps @ TBar # alt_tokens qs"
  by (cases qs) simp_all

lemma type_pieces_nonempty: "type_pieces (e # es) \<noteq> []"
  by (cases es) simp_all

lemma lexes_to_types:
  "list_all plain ts \<Longrightarrow> lexes_to (join ext_sep ts) (alt_tokens (type_pieces ts))"
proof (induction ts rule: induct_list012)
  case 1
  then show ?case by (simp add: join_simps lexes_to_Nil)
next
  case (2 e)
  then show ?case by (simp add: join_simps lexes_to_plain)
next
  case (3 e e' es)
  then have e: "lexes_to e (pieces_tokens (map PLit e))"
    and rest: "lexes_to (join ext_sep (e' # es)) (alt_tokens (type_pieces (e' # es)))"
    by (simp_all add: lexes_to_plain)
  have "alt_tokens (type_pieces (e # e' # es)) =
      pieces_tokens (map PLit e @ [PSpaces, PLit (CHR ''|'')]) @ TBar # alt_tokens (type_pieces (e' # es))"
    using alt_tokens_Cons [OF type_pieces_nonempty, of _ e' es] by simp
  with lexes_to_append [OF e lexes_to_append [OF lexes_to_fixed(9) rest]]
  show ?case
    by (simp add: join_simps pieces_tokens_def del: alt_tokens.simps type_pieces.simps)
qed

section \<open>The tree of a pattern source without metacharacters\<close>

lemma plain_or_dot_stripped: "plain_or_dot rel \<Longrightarrow> plain_or_dot (stripped rel)"
  by (auto simp: plain_or_dot_def stripped_def list_all_iff dest: in_set_butlastD)

lemma lexes_to_prefix:
  assumes "plain_or_dot rel"
  shows "lexes_to (''(?:.+'' @ stripped rel @ [bslash] @ ''/)?'')
           (TOpen # alt_tokens [prefix_pieces rel] @ [TClose, TQuest])"
proof -
  note path = lexes_to_path [OF plain_or_dot_stripped [OF assms]]
  from lexes_to_append [OF lexes_to_fixed(1) lexes_to_append [OF lexes_to_fixed(2)
      lexes_to_append [OF path lexes_to_append [OF lexes_to_fixed(4) lexes_to_fixed(6)]]]]
  show ?thesis by (simp add: prefix_pieces_def pieces_tokens_def)
qed

lemma lexes_to_folder_group:
  assumes "list_all plain fs"
  shows "lexes_to (''(?:'' @ join ''|'' (map norm_folder fs) @ '')'')
           (TOpen # alt_tokens (folder_pieces fs) @ [TClose])"
  using lexes_to_append [OF lexes_to_fixed(1)
      lexes_to_append [OF lexes_to_folders [OF assms] lexes_to_fixed(7)]]
  by simp

lemma lexes_to_type_group:
  assumes "list_all plain ts"
  shows "lexes_to (''.+'' @ [bslash] @ ''.(?:'' @ join ext_sep ts @ '')'')
           (pieces_tokens [PDots, PLit (CHR ''.'')] @ TOpen # alt_tokens (type_pieces ts) @ [TClose])"
  using lexes_to_append [OF lexes_to_fixed(2) lexes_to_append [OF lexes_to_fixed(5)
      lexes_to_append [OF lexes_to_fixed(1)
        lexes_to_append [OF lexes_to_types [OF assms] lexes_to_fixed(7)]]]]
  by (simp add: pieces_tokens_def)

lemma lexes_to_pattern:
  assumes "plain_or_dot rel" and "plain_restrictions rs"
  shows "lexes_to (pattern_source rs rel) (pattern_tokens rs rel)"
proof -
  note pre = lexes_to_prefix [OF assms(1)]
  have tail: "lexes_to ''.+'' (pieces_tokens [PDots])"
    using lexes_to_fixed(2) by (simp add: pieces_tokens_def)
  show ?thesis
  proof (cases "configured_folders rs")
    case None
    note nf = this
    show ?thesis
    proof (cases "configured_types rs")
      case None
      with nf lexes_to_append [OF pre tail] show ?thesis
        by (auto simp: pattern_source_def pattern_tokens_def stripped_def configured_folders_def
            configured_types_def split: option.splits)
    next
      case (Some ts)
      with assms(2) have "list_all plain ts"
        by (auto simp: plain_restrictions_def configured_types_def split: option.splits)
      from lexes_to_append [OF pre lexes_to_type_group [OF this]] nf Some show ?thesis
        by (auto simp: pattern_source_def pattern_tokens_def stripped_def configured_folders_def
            configured_types_def split: option.splits)
    qed
  next
    case (Some fs)
    note sf = this
    with assms(2) have "list_all plain fs"
      by (auto simp: plain_restrictions_def configured_folders_def split: option.splits)
    note fg = lexes_to_folder_group [OF this]
    show ?thesis
    proof (cases "configured_types rs")
      case None
      with sf lexes_to_append [OF pre lexes_to_append [OF fg tail]] show ?thesis
        by (auto simp: pattern_source_def pattern_tokens_def stripped_def configured_folders_def
            configured_types_def split: option.splits)
    next
      case (Some ts)
      with assms(2) have "list_all plain ts"
        by (auto simp: plain_restrictions_def configured_types_def split: option.splits)
      from lexes_to_append [OF pre lexes_to_append [OF fg lexes_to_type_group [OF this]]] sf Some
      show ?thesis
        by (auto simp: pattern_source_def pattern_tokens_def stripped_def configured_folders_def
            configured_types_def split: option.splits)
    qed
  qed
qed

lemma lex_pattern:
  assumes "plain_or_dot rel" and "plain_restrictions rs"
  shows "lex (pattern_source rs rel) = Inr (pattern_tokens rs rel)"
proof -
  from lexes_to_pattern [OF assms]
  have "lex (pattern_source rs rel @ []) = map_sum id ((@) (pattern_tokens rs rel)) (lex [])"
    unfolding lexes_to_def by blast
  then show ?thesis by simp
qed

lemma parse_any_state:
  "continues ts \<Longrightarrow> parse stk alts cur q ts = parse stk alts cur q' ts"
proof (cases ts)
  case Nil
  then show ?thesis by simp
next
  case (Cons t rest)
  assume "continues ts"
  with Cons show ?thesis by (cases t) (simp_all add: continues_def)
qed

lemma parse_piece:
  "\<exists>q'. parse stk alts cur q (piece_tokens p @ ts) = parse stk alts (piece_tree p # cur) q' ts"
proof (cases p)
  case (PLit c)
  then have "parse stk alts cur q (piece_tokens p @ ts) = parse stk alts (piece_tree p # cur) Atom ts"
    by simp
  then show ?thesis by (rule exI)
next
  case PDot
  then have "parse stk alts cur q (piece_tokens p @ ts) = parse stk alts (piece_tree p # cur) Atom ts"
    by simp
  then show ?thesis by (rule exI)
next
  case PSpaces
  then have "parse stk alts cur q (piece_tokens p @ ts) =
      parse stk alts (piece_tree p # cur) Quantified ts"
    by (simp add: quantify_def)
  then show ?thesis by (rule exI)
next
  case PDots
  then have "parse stk alts cur q (piece_tokens p @ ts) =
      parse stk alts (piece_tree p # cur) Quantified ts"
    by (simp add: quantify_def)
  then show ?thesis by (rule exI)
qed

lemma parse_pieces:
  "continues ts \<Longrightarrow>
     parse stk alts cur q (pieces_tokens ps @ ts) =
       parse stk alts (rev (map piece_tree ps) @ cur) Atom ts"
proof (induction ps arbitrary: cur q)
  case Nil
  then show ?case by (simp add: pieces_tokens_def parse_any_state [of ts _ _ _ q Atom])
next
  case (Cons p ps)
  obtain q' where
    "parse stk alts cur q (piece_tokens p @ pieces_tokens ps @ ts) =
       parse stk alts (piece_tree p # cur) q' (pieces_tokens ps @ ts)"
    using parse_piece by blast
  with Cons.IH [OF Cons.prems, of "piece_tree p # cur" q'] show ?case
    by (simp add: pieces_tokens_def)
qed

lemma close_group_rev:
  "close_group alts (rev (map piece_tree ps)) = mk_alt (rev alts @ [pieces_tree ps])"
  by (simp add: close_group_def pieces_tree_def)

lemma parse_alts:
  "pss \<noteq> [] \<Longrightarrow>
     parse ((a', c') # stk) alts [] q (alt_tokens pss @ TClose # ts) =
       parse stk a' (mk_alt (rev alts @ map pieces_tree pss) # c') Atom ts"
proof (induction pss arbitrary: alts q rule: induct_list012)
  case 1
  then show ?case by simp
next
  case (2 ps)
  have "continues (TClose # ts)" by (simp add: continues_def)
  from parse_pieces [OF this, of "(a', c') # stk" alts "[]" q ps] show ?case
    by (simp add: close_group_rev)
next
  case (3 ps qs rest)
  have "continues (TBar # alt_tokens (qs # rest) @ TClose # ts)" by (simp add: continues_def)
  from parse_pieces [OF this, of "(a', c') # stk" alts "[]" q ps]
    "3.IH"(2) [of "pieces_tree ps # alts" NoAtom]
  show ?case by (simp add: pieces_tree_def)
qed

lemma parse_group:
  "parse stk alts cur q (TOpen # alt_tokens pss @ TClose # ts) =
     parse stk alts (group_tree pss # cur) Atom ts"
proof (cases "pss = []")
  case True
  then show ?thesis
    by (simp add: group_tree_def close_group_def pieces_tree_def)
next
  case False
  from parse_alts [OF this, of alts cur stk "[]" NoAtom ts] False show ?thesis
    by (simp add: group_tree_def)
qed

lemma parse_end: "parse [] [] cur q [] = Inr (mk_alt [mk_seq (rev cur)])"
  by (simp add: close_group_def)

lemma parse_pattern_tokens:
  "parse [] [] [] NoAtom (pattern_tokens rs rel) = Inr (pattern_tree rs rel)"
proof -
  define opt where "opt = Alt (group_tree [prefix_pieces rel]) Eps"
  have start: "parse [] [] [] NoAtom (TOpen # alt_tokens [prefix_pieces rel] @ TClose # TQuest # ts) =
      parse [] [] [opt] Quantified ts" for ts
    unfolding opt_def
    using parse_group [of "[]" "[]" "[]" NoAtom "[prefix_pieces rel]" "TQuest # ts"]
    by (simp add: quantify_def)
  have types: "parse [] [] cur q
        (case configured_types rs of
           None \<Rightarrow> pieces_tokens [PDots]
         | Some ts \<Rightarrow>
             pieces_tokens [PDots, PLit (CHR ''.'')] @ TOpen # alt_tokens (type_pieces ts) @ [TClose]) =
      Inr (mk_alt [mk_seq (rev cur @
        (case configured_types rs of
           None \<Rightarrow> [piece_tree PDots]
         | Some ts \<Rightarrow> [piece_tree PDots, Chr (CHR ''.''), group_tree (type_pieces ts)]))])"
    for cur q
  proof (cases "configured_types rs")
    case None
    have "continues []" by (simp add: continues_def)
    from parse_pieces [OF this, of "[]" "[]" cur q "[PDots]"] None show ?thesis
      by (simp add: parse_end del: parse.simps piece_tree.simps)
  next
    case (Some ts)
    have "continues (TOpen # alt_tokens (type_pieces ts) @ [TClose])" by (simp add: continues_def)
    from parse_pieces [OF this, of "[]" "[]" cur q "[PDots, PLit (CHR ''.'')]"]
      parse_group [of "[]" "[]" _ Atom "type_pieces ts" "[]"] Some
    show ?thesis
      by (simp add: parse_end del: parse.simps piece_tree.simps(4))
  qed
  show ?thesis
  proof (cases "configured_folders rs")
    case None
    with start types [of "[opt]" Quantified] show ?thesis
      by (simp add: pattern_tokens_def pattern_tree_def pattern_items_def opt_def
          del: parse.simps alt_tokens.simps)
  next
    case (Some fs)
    with start parse_group [of "[]" "[]" "[opt]" Quantified "folder_pieces fs"]
      types [of "[group_tree (folder_pieces fs), opt]" Atom]
    show ?thesis
      by (simp add: pattern_tokens_def pattern_tree_def pattern_items_def opt_def
          del: parse.simps alt_tokens.simps)
  qed
qed

lemma buildFilePattern_plain:
  "plain_or_dot rel \<Longrightarrow> plain_restrictions rs \<Longrightarrow>
     buildFilePattern rs rel = Inr \<lparr>tree = pattern_tree rs rel, ignoreCase = True\<rparr>"
  by (simp add: buildFilePattern_def RegExp_def parse_pattern_def lex_pattern parse_pattern_tokens)

section \<open>The paths a pattern without metacharacters accepts\<close>

lemma conc_unit [simp]: "conc A {[]} = A" "conc {[]} A = A"
  by (auto simp: conc_def)

lemma conc_assoc: "conc (conc A B) C = conc A (conc B C)"
  by (auto simp: conc_def) (metis append.assoc)+


lemma lang_mk_seq [simp]:
  "lang ic (mk_seq []) = {[]}"
  "lang ic (mk_seq (r # rs)) = conc (lang ic r) (lang ic (mk_seq rs))"
  by (simp_all add: mk_seq_def)



lemma same_ci_Nil [simp]: "same_ci u [] \<longleftrightarrow> u = []"
  by (simp add: same_ci_def)


















section \<open>Properties of the file pattern\<close>

lemma plain_is_plain_or_dot: "plain s \<Longrightarrow> plain_or_dot s"
  by (auto simp: plain_def plain_or_dot_def list_all_iff)




text \<open>
  C9 (metacharacters are not escaped). For a relative path, folder names and extensions
  free of metacharacters the construction returns a pattern. An unbalanced parenthesis
  in the relative path or in a folder name makes the constructor throw a SyntaxError.
  A dot in a folder name matches any character (\<^verbatim>\<open>axb/c\<close> is accepted for the folder
  \<^verbatim>\<open>a.b\<close>), and a plus repeats the character before it (\<^verbatim>\<open>a+/c\<close> is rejected for the folder
  \<^verbatim>\<open>a+\<close>), unlike matching the folder name literally.
\<close>

theorem C9_metacharacters:
  "(plain rel \<and> plain_restrictions rs \<longrightarrow> (\<exists>re. buildFilePattern rs rel = Inr re)) \<and>
   buildFilePattern None ''a(b'' = Inl SyntaxError \<and>
   buildFilePattern (restrict (Some [''a(b'']) None) ''pkg'' = Inl SyntaxError \<and>
   verdict (restrict (Some [''a.b'']) None) ''pkg'' ''axb/c'' = Some True \<and>
   spec_accepts (restrict (Some [''a.b'']) None) ''pkg'' ''axb/c'' = False \<and>
   verdict (restrict (Some [''a+'']) None) ''pkg'' ''a+/c'' = Some False \<and>
   spec_accepts (restrict (Some [''a+'']) None) ''pkg'' ''a+/c'' = True"
proof -
  have "plain rel \<and> plain_restrictions rs \<longrightarrow> (\<exists>re. buildFilePattern rs rel = Inr re)"
    by (simp add: buildFilePattern_plain plain_is_plain_or_dot)
  moreover have "buildFilePattern None ''a(b'' = Inl SyntaxError \<and>
      buildFilePattern (restrict (Some [''a(b'']) None) ''pkg'' = Inl SyntaxError \<and>
      verdict (restrict (Some [''a.b'']) None) ''pkg'' ''axb/c'' = Some True \<and>
      spec_accepts (restrict (Some [''a.b'']) None) ''pkg'' ''axb/c'' = False \<and>
      verdict (restrict (Some [''a+'']) None) ''pkg'' ''a+/c'' = Some False \<and>
      spec_accepts (restrict (Some [''a+'']) None) ''pkg'' ''a+/c'' = True"
    by code_simp
  ultimately show ?thesis by (rule conjI)
qed

theorem C9_metacharacters_witness:
  "plain ''pkg'' \<and>
   plain_restrictions (restrict (Some [''src/app'']) (Some [''js'', ''html''])) \<and>
   (\<exists>re. buildFilePattern (restrict (Some [''src/app'']) (Some [''js'', ''html''])) ''pkg'' = Inr re)"
proof -
  have h: "plain ''pkg'' \<and>
      plain_restrictions (restrict (Some [''src/app'']) (Some [''js'', ''html'']))"
    by code_simp
  from C9_metacharacters [THEN conjunct1, THEN mp, OF h] h show ?thesis
    by (intro conjI) simp_all
qed

section \<open>Properties of the dispatchers\<close>

subsection \<open>Running tasks\<close>

lemma runTask_drops_exit_code:
  "chdir_ok e (absolute p) \<Longrightarrow> shell_exec e task (absolute p) = ExitCode n \<Longrightarrow>
     runTask e task p = ([Running task (absolute p)], None)"
  by (simp add: runTask_def)

lemma runTask_main_checks_exit_code:
  "chdir_ok e (absolute p) \<Longrightarrow> shell_exec e task (absolute p) = ExitCode n \<Longrightarrow> n \<noteq> 0 \<Longrightarrow>
     runTask_main e task p = ([Running task (absolute p)], Rejected (RunTaskError task (name p)))"
  by (simp add: runTask_main_def)

lemma each_runTask_stops:
  "chdir_ok e (absolute p) \<Longrightarrow> shell_exec e task (absolute p) = ExitCode n \<Longrightarrow> n \<noteq> 0 \<Longrightarrow>
     each_runTask e (task # ts) p =
       ([Running task (absolute p)], Rejected (RunTaskError task (name p)))"
  by (simp add: runTask_main_checks_exit_code)

lemma settle_RunTaskError: "settle (Rejected (RunTaskError task project)) = ([Fatal (RunTaskError task project)], Some 1)"
  by (simp add: settle_def errorCallback_single_def)

lemma each_runTask_ignores_message:
  "each_runTask (e\<lparr>commit_message := message, new_RegExp := constructor\<rparr>) ts p = each_runTask e ts p"
  by (induction ts) (simp_all add: runTask_main_def)

subsection \<open>Resolving the configuration\<close>

lemma getPackageConfig_no_section:
  "hooks_section json = None \<Longrightarrow> getPackageConfig json = Inl (NoConfigError (pkg_name json))"
  by (simp add: getPackageConfig_def)

lemma getPackageConfig_section:
  "hooks_section json = Some c \<Longrightarrow> getPackageConfig json = Inr c"
  by (simp add: getPackageConfig_def)

lemma mapPackageConfig_no_section:
  "require e (manifest_path p) = Some json \<Longrightarrow> hooks_section json = None \<Longrightarrow>
     mapPackageConfig e p = Inl (NoConfigError (name p))"
  by (simp add: mapPackageConfig_def)

lemma mapPackageConfig_default:
  "require e (manifest_path p) = Some json \<Longrightarrow> hooks_section json = Some c \<Longrightarrow>
     \<exists>config. mapPackageConfig e p = Inr config \<and> pkg config = p \<and>
       enabled config = (if enabled c = None then Some True else enabled c)"
  by (simp add: mapPackageConfig_def)

subsection \<open>Skipping a package\<close>

lemma skipPackage_user:
  "skip_users config = Some users \<Longrightarrow> username e \<in> set users \<Longrightarrow>
     skipPackage e config = Inr ([SkipUser (name (pkg config))], False)"
  by (simp add: skipPackage_def)

lemma skipPackage_disabled:
  "skip_users config = Some users \<Longrightarrow> username e \<notin> set users \<Longrightarrow> enabled config \<noteq> Some True \<Longrightarrow>
     skipPackage e config = Inr ([SkipDisabled (name (pkg config))], False)"
  by (simp add: skipPackage_def)

lemma filter_skip_goes_on:
  assumes "skipPackage e config = Inr (evs, False)"
  shows "filter_skip e (config # cs) = (evs @ fst (filter_skip e cs), snd (filter_skip e cs))"
proof (cases "filter_skip e cs")
  case (Pair evs' r)
  with assms show ?thesis by (cases r) simp_all
qed

lemma run_body_disabled:
  "require e (manifest_path p) = Some json \<Longrightarrow> hooks_section json = Some c \<Longrightarrow>
   restrictions c = Some rs \<Longrightarrow> skip_users_in rs = Some users \<Longrightarrow> username e \<notin> set users \<Longrightarrow>
   enabled c \<noteq> Some True \<Longrightarrow>
     run_body e operation fileList p = Return [SkipDisabled (name p)]"
  by (simp add: run_body_def getPackageConfig_def)

lemma run_loop_Return:
  "run_body e operation fileList p = Return evs \<Longrightarrow>
     run_loop h e operation fileList (p # ps) errors = (evs, Returned)"
  by simp

lemma forEach_package_Return:
  "callback_body e operation fileList p = Return evs \<Longrightarrow>
     forEach_package e operation fileList (p # ps) errors =
       (evs @ fst (forEach_package e operation fileList ps errors),
        snd (forEach_package e operation fileList ps errors))"
  by (simp add: case_prod_beta)

subsection \<open>Soft errors in the one-pass loop\<close>

lemma run_loop_soft_error:
  assumes "run_body e operation fileList p = Throws evs err"
    and "is_NoConfigError err \<or> is_NoTaskError err \<or> is_NoFileError err"
  shows "run_loop handlers_list e operation fileList (p # ps) errors =
      after (evs @ [Info err]) (run_loop handlers_list e operation fileList ps (errors @ [err]))"
proof -
  from assms(2) have "\<not> is_RunTaskError err" by (cases err) auto
  with assms show ?thesis by (auto simp: handlers_list_def)
qed

lemma errorCallback_switch_exits: "errorCallback_switch (err # errs) = ([Fatal err], Some 1)"
  by simp

subsection \<open>Failing tasks, soft outcomes and skipped packages\<close>

text \<open>
  C1 (fail-fast on a non-zero exit code). Evaluation of the one-pass dispatcher of
  src/npm-git-hooks.js on two packages A and B, where A's only pre-push task exits with
  code 1: the exit code is dropped, B's task is run afterwards and the run ends with
  \<^verbatim>\<open>process.exit(0)\<close>.
\<close>

theorem C1_exit_code_ignored:
  "shell_exec env_failing_task ''exit 1'' ''/repo/A'' = ExitCode 1 \<and>
   run handlers_list env_failing_task ''pre-push'' (Flag True) [pkg_A, pkg_B] =
     ([Running ''exit 1'' ''/repo/A'', Running ''echo B'' ''/repo/B'', AllSuccessful], Exit 0)"
  by code_simp

text \<open>
  C2 (soft outcomes are only logged). Two evaluations. With the \<^verbatim>\<open>errorCallback\<close> of
  lib/handlers.js that switches on the error, a package without configuration ends the
  run with exit code 1 before the next package is looked at. And \<^verbatim>\<open>getCommitedFiles\<close>
  exits with code 1 when there are no commits.
\<close>

theorem C2_soft_outcome_exits:
  "run handlers_switch env_no_config ''pre-commit'' (Flag True) [pkg_A, pkg_B] =
     ([Fatal (NoConfigError ''A'')], Exit 1) \<and>
   commits env_no_config = [] \<and>
   getCommitedFiles env_no_config = Inl ([Fatal NoCommitsError], 1)"
  by code_simp

text \<open>
  C4 (a skipped user does not stop later packages). Evaluation of the one-pass dispatcher
  of src/npm-git-hooks.js on packages A and B where A's skip list contains the current
  user: the \<^verbatim>\<open>return\<close> leaves \<^verbatim>\<open>run\<close>, and B, whose task list is not empty, is never visited.
\<close>

theorem C4_skip_returns_from_run:
  "run handlers_list env_skip_user ''pre-push'' (Flag True) [pkg_A, pkg_B] =
     ([SkipUser ''A''], Returned) \<and>
   run handlers_list env_skip_user ''pre-push'' (Flag True) [pkg_B] =
     ([Running ''echo B'' ''/repo/B'', AllSuccessful], Exit 0)"
  by code_simp

text \<open>
  C5 (a disabled package runs no task). Evaluation of the earlier one-pass dispatcher on
  a package whose resolved configuration has \<^verbatim>\<open>enabled\<close> false: the message is logged and
  the task is run all the same.
\<close>

theorem C5_disabled_still_runs:
  "run_forEach env_disabled ''pre-push'' (Flag True) [pkg_A] =
     ([SkipDisabled ''A'', Running ''echo A'' ''/repo/A''], ResolvedWith ''pre-push'')"
  by code_simp

text \<open>
  C6 (the commit message check). \<^verbatim>\<open>runTasks\<close> makes the check only in a run of the operation
  \<^verbatim>\<open>commit-msg\<close>. There, for a package whose pattern \<open>src\<close> is configured and accepted by the
  RegExp constructor, it returns the promise of the check without running any task (the
  event list is empty): rejected with a RunTaskError when the last commit message does
  not match, resolved when it matches; with no pattern configured (absent or empty) the
  promise is resolved. The rejection is fatal: the \<^verbatim>\<open>catch\<close> handler exits with code 1. In a
  run of any other operation the check is not made: a package with a non-empty task list
  for the operation has its tasks run one after the other, and the result is the same
  whatever the pattern, the constructor and the last commit message are.
\<close>

theorem C6_check_only_in_commit_msg_run:
  "(commit_msg config = Some src \<and> src \<noteq> [] \<and> new_RegExp e src = Some test \<longrightarrow>
      runTasks_main e config ''commit-msg'' =
        Inr ([], if test (commit_message e) then Resolved
                 else Rejected (RunTaskError ''commit-msg'' (name (pkg config))))) \<and>
   (commit_msg config = None \<or> commit_msg config = Some [] \<longrightarrow>
      runTasks_main e config ''commit-msg'' = Inr ([], Resolved)) \<and>
   settle (Rejected (RunTaskError task project)) = ([Fatal (RunTaskError task project)], Some 1) \<and>
   (operation \<noteq> ''commit-msg'' \<and> hook config operation = Some (TaskList ts) \<and> ts \<noteq> [] \<longrightarrow>
      runTasks_main e config operation = Inr (each_runTask e ts (pkg config))) \<and>
   (operation \<noteq> ''commit-msg'' \<longrightarrow>
      runTasks_main (e\<lparr>commit_message := message, new_RegExp := constructor\<rparr>)
          (config\<lparr>commit_msg := pattern\<rparr>) operation =
        runTasks_main e config operation)"
proof (intro conjI impI)
  assume "commit_msg config = Some src \<and> src \<noteq> [] \<and> new_RegExp e src = Some test"
  then show "runTasks_main e config ''commit-msg'' =
      Inr ([], if test (commit_message e) then Resolved
               else Rejected (RunTaskError ''commit-msg'' (name (pkg config))))"
    by (simp add: runTasks_main_def checkCommitMsg_def)
next
  assume "commit_msg config = None \<or> commit_msg config = Some []"
  then show "runTasks_main e config ''commit-msg'' = Inr ([], Resolved)"
    by (auto simp: runTasks_main_def checkCommitMsg_def)
next
  show "settle (Rejected (RunTaskError task project)) = ([Fatal (RunTaskError task project)], Some 1)"
    by (simp add: settle_def errorCallback_single_def)
next
  assume "operation \<noteq> ''commit-msg'' \<and> hook config operation = Some (TaskList ts) \<and> ts \<noteq> []"
  then show "runTasks_main e config operation = Inr (each_runTask e ts (pkg config))"
    by (simp add: runTasks_main_def)
next
  assume "operation \<noteq> ''commit-msg''"
  then show "runTasks_main (e\<lparr>commit_message := message, new_RegExp := constructor\<rparr>)
        (config\<lparr>commit_msg := pattern\<rparr>) operation = runTasks_main e config operation"
    by (simp add: runTasks_main_def each_runTask_ignores_message
          split: option.split hook_entry.split)
qed

theorem C6_check_only_in_commit_msg_run_witness:
  "runTasks_main env_jira config_jira ''commit-msg'' =
     Inr ([], Rejected (RunTaskError ''commit-msg'' ''A'')) \<and>
   runTasks_main env_jira_message config_jira ''commit-msg'' = Inr ([], Resolved) \<and>
   runTasks_main env_jira (config_jira\<lparr>commit_msg := None\<rparr>) ''commit-msg'' = Inr ([], Resolved) \<and>
   runTasks_main env_jira_message config_jira ''pre-commit'' =
     Inr ([Running ''npm run test'' ''/repo/A''], Resolved) \<and>
   runTasks_main (env_jira\<lparr>commit_message := ''JIRA-12 fix bug'', new_RegExp := Map.empty\<rparr>)
       (config_jira\<lparr>commit_msg := None\<rparr>) ''pre-commit'' =
     runTasks_main env_jira config_jira ''pre-commit''"
proof -
  have built: "RegExp jira_source False = Inr jira_pattern"
    by code_simp
  have src: "commit_msg config_jira = Some jira_source \<and> jira_source \<noteq> [] \<and>
      new_RegExp env_jira jira_source = Some (exec jira_pattern)"
    by (simp add: config_jira_def env_jira_def env_with_def test_of_def built)
       (simp add: jira_source_def)
  have src': "commit_msg config_jira = Some jira_source \<and> jira_source \<noteq> [] \<and>
      new_RegExp env_jira_message jira_source = Some (exec jira_pattern)"
    using src by (simp add: env_jira_message_def)
  have no_match: "\<not> exec jira_pattern (commit_message env_jira)"
    by code_simp
  have match: "exec jira_pattern (commit_message env_jira_message)"
    by code_simp
  have name: "name (pkg config_jira) = ''A''"
    by code_simp
  have none: "commit_msg (config_jira\<lparr>commit_msg := None\<rparr>) = None"
    by simp
  have tasks: "''pre-commit'' \<noteq> ''commit-msg'' \<and>
      hook config_jira ''pre-commit'' = Some (TaskList [''npm run test'']) \<and>
      [''npm run test''] \<noteq> []"
    by (simp add: config_jira_def only_hook_def)
  have ran: "each_runTask env_jira_message [''npm run test''] (pkg config_jira) =
      ([Running ''npm run test'' ''/repo/A''], Resolved)"
    by code_simp
  have other: "''pre-commit'' \<noteq> ''commit-msg''"
    by simp
  have a: "runTasks_main env_jira config_jira ''commit-msg'' =
      Inr ([], Rejected (RunTaskError ''commit-msg'' ''A''))"
    using C6_check_only_in_commit_msg_run [THEN conjunct1, THEN mp, OF src] no_match name
    by simp
  have b: "runTasks_main env_jira_message config_jira ''commit-msg'' = Inr ([], Resolved)"
    using C6_check_only_in_commit_msg_run [THEN conjunct1, THEN mp, OF src'] match
    by simp
  have c: "runTasks_main env_jira (config_jira\<lparr>commit_msg := None\<rparr>) ''commit-msg'' =
      Inr ([], Resolved)"
    using C6_check_only_in_commit_msg_run
      [THEN conjunct2, THEN conjunct1, THEN mp, OF disjI1, OF none] .
  have d: "runTasks_main env_jira_message config_jira ''pre-commit'' =
      Inr ([Running ''npm run test'' ''/repo/A''], Resolved)"
    using C6_check_only_in_commit_msg_run
      [THEN conjunct2, THEN conjunct2, THEN conjunct2, THEN conjunct1, THEN mp, OF tasks,
       of env_jira_message]
    by (simp only: ran)
  have e: "runTasks_main (env_jira\<lparr>commit_message := ''JIRA-12 fix bug'', new_RegExp := Map.empty\<rparr>)
        (config_jira\<lparr>commit_msg := None\<rparr>) ''pre-commit'' =
      runTasks_main env_jira config_jira ''pre-commit''"
    using C6_check_only_in_commit_msg_run
      [THEN conjunct2, THEN conjunct2, THEN conjunct2, THEN conjunct2, THEN mp, OF other] .
  from a b c d e show ?thesis by (intro conjI)
qed

theorem C6_counterexample:
  "run_configs env_jira ''pre-commit'' [pkg_A] = ([], Value [config_jira]) \<and>
   commit_msg config_jira = Some jira_source \<and>
   new_RegExp env_jira jira_source = Some (exec jira_pattern) \<and>
   \<not> exec jira_pattern (commit_message env_jira) \<and>
   runTasks_main env_jira config_jira ''pre-commit'' =
     Inr ([Running ''npm run test'' ''/repo/A''], Resolved) \<and>
   settle Resolved = ([AllSuccessful], None)"
proof -
  have built: "RegExp jira_source False = Inr jira_pattern"
    by code_simp
  have mapped: "mapPackageConfig env_jira pkg_A = Inr config_jira"
    by (simp add: mapPackageConfig_def env_jira_def env_with_def two_manifests_def
          manifest_path_def pkg_A_def hooks_jira_def config_jira_def)
  have kept: "skipPackage env_jira config_jira = Inr ([], True)"
    by (simp add: skipPackage_def env_jira_def env_with_def config_jira_def)
  have matched: "fileMatch env_jira config_jira ''pre-commit'' = ([], Value True)"
    by code_simp
  have a: "run_configs env_jira ''pre-commit'' [pkg_A] = ([], Value [config_jira])"
    by (simp add: run_configs_def mapped kept matched)
  have b: "commit_msg config_jira = Some jira_source"
    by (simp add: config_jira_def)
  have c: "new_RegExp env_jira jira_source = Some (exec jira_pattern)"
    by (simp add: env_jira_def env_with_def test_of_def built)
  have d: "\<not> exec jira_pattern (commit_message env_jira)"
    by code_simp
  have e: "runTasks_main env_jira config_jira ''pre-commit'' =
      Inr ([Running ''npm run test'' ''/repo/A''], Resolved)"
    by code_simp
  have f: "settle Resolved = ([AllSuccessful], None)"
    by (simp add: settle_def)
  from a b c d e f show ?thesis by (intro conjI)
qed

text \<open>
  C7 (default \<^verbatim>\<open>enabled = true\<close>). Evaluation on a manifest whose section omits
  \<^verbatim>\<open>enabled\<close>: \<^verbatim>\<open>getPackageConfig\<close> of src/npm-git-hooks.js returns the section unchanged,
  with \<^verbatim>\<open>enabled\<close> undefined, and its \<^verbatim>\<open>run\<close> then treats the package as disabled;
  \<^verbatim>\<open>mapPackageConfig\<close> of src/main.js resolves the same manifest to \<^verbatim>\<open>enabled = true\<close>.
\<close>

theorem C7_default_not_applied:
  "map_sum id enabled
     (getPackageConfig \<lparr>pkg_name = ''A'', hooks_section = Some config_enabled_omitted\<rparr>) = Inr None \<and>
   run handlers_list env_enabled_omitted ''pre-push'' (Flag True) [pkg_A] =
     ([SkipDisabled ''A''], Returned) \<and>
   map_sum id enabled (mapPackageConfig env_enabled_omitted pkg_A) = Inr (Some True)"
  by code_simp

text \<open>
  C10 (the skip rule needs its list). In src/main.js, \<^verbatim>\<open>skipPackage\<close> on a configuration
  without \<^verbatim>\<open>skip-users\<close> throws a TypeError, which leaves the filter and \<^verbatim>\<open>run\<close>. In
  src/npm-git-hooks.js, a configuration without \<^verbatim>\<open>restrictions\<close>, or whose restrictions
  have no \<^verbatim>\<open>skip-users\<close>, makes the loop body throw a TypeError before any task is run,
  and the run ends with exit code 1 at that package. The earlier \<^verbatim>\<open>forEach\<close> version throws
  the same TypeError in its callback.
\<close>

theorem C10_skip_users_required:
  "(skip_users config = None \<longrightarrow>
      skipPackage e config = Inl TypeError \<and> filter_skip e (config # cs) = ([], Thrown TypeError)) \<and>
   (require e (manifest_path p) = Some json \<and> hooks_section json = Some c \<and>
    (restrictions c = None \<or> (\<exists>rs. restrictions c = Some rs \<and> skip_users_in rs = None)) \<longrightarrow>
      run_body e operation fileList p = Throws [] TypeError \<and>
      run handlers_list e operation fileList (p # ps) = ([Fatal TypeError], Exit 1)) \<and>
   (require e (absolute p) = Some json' \<and>
    getPackageConfig_hook json' operation = Inr (Some (HookObject h)) \<and>
    (hook_restrictions h = None \<or> (\<exists>rs. hook_restrictions h = Some rs \<and> skip_users_in rs = None)) \<longrightarrow>
      callback_body e operation fileList p = Throws [] TypeError \<and>
      run_forEach e operation fileList [p] = ([], RejectedWith [TypeError]))"
  by (auto simp: skipPackage_def run_body_def getPackageConfig_def run_def handlers_list_def
      callback_body_def run_forEach_def)

theorem C10_skip_users_required_witness:
  "skipPackage env_minimal config_minimal_main = Inl TypeError \<and>
   run handlers_list env_minimal ''pre-push'' (Flag True) [pkg_A, pkg_B] = ([Fatal TypeError], Exit 1) \<and>
   run_forEach env_minimal_hook ''pre-push'' (Flag True) [pkg_A] = ([], RejectedWith [TypeError])"
proof -
  have m: "skip_users config_minimal_main = None"
    by code_simp
  have o: "require env_minimal (manifest_path pkg_A) =
        Some \<lparr>pkg_name = ''A'', hooks_section = Some config_minimal\<rparr> \<and>
      hooks_section \<lparr>pkg_name = ''A'', hooks_section = Some config_minimal\<rparr> = Some config_minimal \<and>
      (restrictions config_minimal = None \<or>
       (\<exists>rs. restrictions config_minimal = Some rs \<and> skip_users_in rs = None))"
    by (simp add: env_minimal_def env_with_def two_manifests_def manifest_path_def pkg_A_def
        config_minimal_def)
  have f: "require env_minimal_hook (absolute pkg_A) =
        Some \<lparr>pkg_name = ''A'',
          hooks_section = Some (config_minimal\<lparr>hook := only_hook ''pre-push'' (HookObject minimal_hook)\<rparr>)\<rparr> \<and>
      getPackageConfig_hook
        \<lparr>pkg_name = ''A'',
          hooks_section = Some (config_minimal\<lparr>hook := only_hook ''pre-push'' (HookObject minimal_hook)\<rparr>)\<rparr>
        ''pre-push'' = Inr (Some (HookObject minimal_hook)) \<and>
      (hook_restrictions minimal_hook = None \<or>
       (\<exists>rs. hook_restrictions minimal_hook = Some rs \<and> skip_users_in rs = None))"
    by (simp add: env_minimal_hook_def env_with_def two_manifests_def pkg_A_def
        getPackageConfig_hook_def only_hook_def minimal_hook_def)
  have a: "skipPackage env_minimal config_minimal_main = Inl TypeError"
    using C10_skip_users_required [THEN conjunct1, THEN mp, OF m, THEN conjunct1] .
  have b:
    "run handlers_list env_minimal ''pre-push'' (Flag True) [pkg_A, pkg_B] = ([Fatal TypeError], Exit 1)"
    using C10_skip_users_required [THEN conjunct2, THEN conjunct1, THEN mp, OF o, THEN conjunct2] .
  have c:
    "run_forEach env_minimal_hook ''pre-push'' (Flag True) [pkg_A] = ([], RejectedWith [TypeError])"
    using C10_skip_users_required [THEN conjunct2, THEN conjunct2, THEN mp, OF f, THEN conjunct2] .
  from a b c show ?thesis by (intro conjI)
qed

section \<open>Properties of package discovery\<close>

lemma recursive_blocked:
  "isADirectory node \<Longrightarrow>
     (blocked exclude node \<longrightarrow> recursive pattern exclude dir node list = Inl SystemError) \<and>
     (\<not> blocked exclude node \<longrightarrow> (\<exists>l. recursive pattern exclude dir node list = Inr l))"
  "(blocked_in exclude entries \<longrightarrow> forEach_sub pattern exclude dir entries list = Inl SystemError) \<and>
   (\<not> blocked_in exclude entries \<longrightarrow> (\<exists>l. forEach_sub pattern exclude dir entries list = Inr l))"
proof (induction pattern exclude dir node list and pattern exclude dir entries list
    rule: recursive_forEach_sub.induct)
  case (5 pattern exclude dir sub node rest list)
  show ?case
  proof (cases "isADirectory node \<and> \<not> exec exclude sub")
    case True
    note enter = this
    show ?thesis
    proof (cases "blocked exclude node")
      case True
      with enter 5(1) show ?thesis by simp
    next
      case False
      with enter 5(1) obtain l where
        l: "recursive pattern exclude (dir @ sub @ ''/'') node list = Inr l"
        by auto
      with enter False 5(2) [of l] show ?thesis by auto
    qed
  next
    case False
    with 5(3,4) show ?thesis by auto
  qed
qed auto

text \<open>
  C8, as the code has it. \<^verbatim>\<open>scandir\<close> has no handler for a failed read: when the walk enters
  a directory (one whose name the exclusion pattern does not match) that cannot be listed,
  the error leaves \<^verbatim>\<open>scandir\<close> and no package is returned; a list of package directories
  is returned exactly when every directory the walk enters can be listed.
\<close>

theorem C8_unreadable_directory_raises:
  "RegExp (''('' @ join ''|'' (or_empty (pattern_list flt)) @ '')'') True = Inr pattern \<Longrightarrow>
   RegExp (''('' @ join ''|'' (or_empty (exclude_list flt)) @ '')'') True = Inr exclude \<Longrightarrow>
   isADirectory root \<Longrightarrow>
   (blocked exclude root \<longrightarrow> scandir dir flt root = Inl SystemError) \<and>
   (\<not> blocked exclude root \<longrightarrow> (\<exists>l. scandir dir flt root = Inr l))"
  using recursive_blocked(1) [of root exclude pattern]
  by (simp add: scandir_def Let_def)

theorem C8_unreadable_directory_raises_witness:
  "scandir ''/repo'' package_filter tree_locked = Inl SystemError \<and>
   (\<exists>l. scandir ''/repo'' package_filter tree_empty_dir = Inr l)"
proof -
  have p: "RegExp (''('' @ join ''|'' (or_empty (pattern_list package_filter)) @ '')'') True =
      Inr package_pattern"
    by code_simp
  have x: "RegExp (''('' @ join ''|'' (or_empty (exclude_list package_filter)) @ '')'') True =
      Inr exclude_pattern"
    by code_simp
  have d: "isADirectory tree_locked" "isADirectory tree_empty_dir"
    by code_simp+
  have b: "blocked exclude_pattern tree_locked" "\<not> blocked exclude_pattern tree_empty_dir"
    by code_simp+
  have 1: "scandir ''/repo'' package_filter tree_locked = Inl SystemError"
    using C8_unreadable_directory_raises [OF p x d(1), THEN conjunct1, THEN mp, OF b(1)] .
  have 2: "\<exists>l. scandir ''/repo'' package_filter tree_empty_dir = Inr l"
    using C8_unreadable_directory_raises [OF p x d(2), THEN conjunct2, THEN mp, OF b(2)] .
  from 1 2 show ?thesis by (intro conjI)
qed

text \<open>
  C8, as stated, fails: with a directory that cannot be listed next to the root's
  manifest, discovery raises; had the directory been empty, the root package would have
  been found.
\<close>

theorem C8_counterexample:
  "scandir ''/repo'' package_filter tree_locked = Inl SystemError \<and>
   scandir ''/repo'' package_filter tree_empty_dir = Inr [''/repo/'']"
  by code_simp

end
